theory Spec2Isabelle
  imports Complex_Main "HOL-Library.Multiset"
begin

section \<open>Python values\<close>

text \<open>
  A Python \<open>float\<close> is a finite value, one of the two infinities, or NaN. The finite
  values are kept as reals: the codec only copies and compares them.
\<close>

datatype pyfloat = Fin real | PosInf | NegInf | NaN

text \<open>\<open>abs(x)\<close>, \<open>-x\<close>, \<open>a >= b\<close>, \<open>a > b\<close> and \<open>a == b\<close> on floats; every comparison with NaN is false.\<close>

fun fabs :: "pyfloat \<Rightarrow> pyfloat" where
  "fabs (Fin x) = Fin \<bar>x\<bar>"
| "fabs PosInf = PosInf"
| "fabs NegInf = PosInf"
| "fabs NaN = NaN"

fun fneg :: "pyfloat \<Rightarrow> pyfloat" where
  "fneg (Fin x) = Fin (- x)"
| "fneg PosInf = NegInf"
| "fneg NegInf = PosInf"
| "fneg NaN = NaN"

fun fge :: "pyfloat \<Rightarrow> pyfloat \<Rightarrow> bool" where
  "fge NaN _ = False"
| "fge _ NaN = False"
| "fge PosInf _ = True"
| "fge NegInf NegInf = True"
| "fge NegInf _ = False"
| "fge (Fin x) (Fin y) = (y \<le> x)"
| "fge (Fin x) PosInf = False"
| "fge (Fin x) NegInf = True"

fun fgt :: "pyfloat \<Rightarrow> pyfloat \<Rightarrow> bool" where
  "fgt NaN _ = False"
| "fgt _ NaN = False"
| "fgt NegInf _ = False"
| "fgt PosInf PosInf = False"
| "fgt PosInf _ = True"
| "fgt (Fin x) (Fin y) = (y < x)"
| "fgt (Fin x) PosInf = False"
| "fgt (Fin x) NegInf = True"

fun feq :: "pyfloat \<Rightarrow> pyfloat \<Rightarrow> bool" where
  "feq NaN _ = False"
| "feq _ NaN = False"
| "feq a b = (a = b)"

text \<open>
  The values that travel through keyword arguments, \<open>model_dump(mode="json")\<close> and
  \<open>json.loads\<close>: \<open>None\<close>, \<open>bool\<close>, \<open>int\<close>, \<open>float\<close>, \<open>str\<close>, \<open>list\<close> and a \<open>dict\<close> with
  string keys, kept as an association list in insertion order.
\<close>

datatype json =
    JNull
  | JBool bool
  | JInt int
  | JFloat pyfloat
  | JStr string
  | JList "json list"
  | JDict "(string \<times> json) list"

datatype error =
    InvalidMagicBytesError
  | InvalidOBBFileError
  | InvalidSignatureError
  | DecryptionError
  | JSONDecodeError
  | UnicodeDecodeError
  | ValidationError
  | PyTypeError
  | PyValueError
  | PyAttributeError
  | PyOverflowError
  | BinasciiError
  | StructError
  | OSError nat

definition bindE :: "error + 'a \<Rightarrow> ('a \<Rightarrow> error + 'b) \<Rightarrow> error + 'b" where
  "bindE m f = (case m of Inl e \<Rightarrow> Inl e | Inr x \<Rightarrow> f x)"

section \<open>models/surface.py\<close>

text \<open>\<open>INFINITY_SENTINEL = 1e99\<close>: the double that the literal denotes, written out exactly.\<close>

definition INFINITY_SENTINEL :: pyfloat where
  "INFINITY_SENTINEL =
     Fin 999999999999999967336168804116691273849533185806555472917961779471295845921727862608739868455469056"

datatype SurfaceType = STANDARD | EVENASPH | ODDASPH | TOROIDAL

datatype SurfaceVisibility = PUBLIC | ENCRYPTED | REDACTED

text \<open>
  \<open>Surface.parse_radius\<close>, the \<open>mode="before"\<close> validator of \<open>radius\<close>. It receives the raw
  value. \<open>isinstance(v, (int, float))\<close> holds for \<open>bool\<close>, \<open>int\<close> and \<open>float\<close>, and
  \<open>abs(v) >= INFINITY_SENTINEL\<close> compares an \<open>int\<close> with the float exactly. The last line
  is \<open>float(v)\<close>. On an \<open>int\<close> it is the nearest double, passed in as \<open>py_float_int\<close>
  (\<open>None\<close> is its \<open>OverflowError\<close>): an \<open>int\<close> just below \<open>1e99\<close> passes the test and is
  rounded to the finite \<open>1e99\<close>. On a \<open>str\<close> it is Python's parser, passed in as
  \<open>py_float\<close> (\<open>None\<close> is its \<open>ValueError\<close>): the test is not made, so \<open>'-inf'\<close> and \<open>'1e100'\<close>
  are taken as they are. On a list or a dict it raises \<open>TypeError\<close>.
\<close>

fun parse_radius :: "(string \<Rightarrow> pyfloat option) \<Rightarrow> (int \<Rightarrow> pyfloat option) \<Rightarrow> json
    \<Rightarrow> error + pyfloat" where
  "parse_radius py_float py_float_int JNull = Inr PosInf"
| "parse_radius py_float py_float_int (JBool b) =
     (if fge (fabs (Fin (if b then 1 else 0))) INFINITY_SENTINEL then Inr PosInf
      else Inr (Fin (if b then 1 else 0)))"
| "parse_radius py_float py_float_int (JInt i) =
     (if fge (fabs (Fin (of_int i))) INFINITY_SENTINEL then Inr PosInf
      else (case py_float_int i of None \<Rightarrow> Inl PyOverflowError | Some v \<Rightarrow> Inr v))"
| "parse_radius py_float py_float_int (JFloat v) =
     (if fge (fabs v) INFINITY_SENTINEL then Inr PosInf else Inr v)"
| "parse_radius py_float py_float_int (JStr s) =
     (case py_float s of None \<Rightarrow> Inl PyValueError | Some v \<Rightarrow> Inr v)"
| "parse_radius py_float py_float_int (JList xs) = Inl PyTypeError"
| "parse_radius py_float py_float_int (JDict kvs) = Inl PyTypeError"

text \<open>\<open>Surface.serialize_radius\<close>, the field serializer of \<open>radius\<close>.\<close>

definition serialize_radius :: "pyfloat \<Rightarrow> pyfloat" where
  "serialize_radius v =
     (if feq v PosInf \<or> feq v NegInf \<or> fge (fabs v) INFINITY_SENTINEL
      then (if fgt v (Fin 0) then INFINITY_SENTINEL else fneg INFINITY_SENTINEL)
      else v)"

text \<open>The string values of the two enumerations (\<open>class ...(str, Enum)\<close>).\<close>

fun SurfaceType_value :: "SurfaceType \<Rightarrow> string" where
  "SurfaceType_value STANDARD = ''standard''"
| "SurfaceType_value EVENASPH = ''evenasph''"
| "SurfaceType_value ODDASPH = ''oddasph''"
| "SurfaceType_value TOROIDAL = ''toroidal''"

fun SurfaceVisibility_value :: "SurfaceVisibility \<Rightarrow> string" where
  "SurfaceVisibility_value PUBLIC = ''public''"
| "SurfaceVisibility_value ENCRYPTED = ''encrypted''"
| "SurfaceVisibility_value REDACTED = ''redacted''"

text \<open>\<open>class Surface(BaseModel)\<close>: the fields in declaration order.\<close>

record Surface =
  surface_number :: int
  surface_type :: SurfaceType
  radius :: pyfloat
  thickness :: pyfloat
  semi_diameter :: pyfloat
  conic :: pyfloat
  material :: "string option"
  aspheric_coeffs :: "(string \<times> pyfloat) list option"
  decenter_x :: pyfloat
  decenter_y :: pyfloat
  tilt_x :: pyfloat
  tilt_y :: pyfloat
  visibility :: SurfaceVisibility

section \<open>models/surface\_group.py and models/metadata.py\<close>

datatype FieldType = Angle | Height

fun FieldType_value :: "FieldType \<Rightarrow> string" where
  "FieldType_value Angle = ''angle''"
| "FieldType_value Height = ''height''"

record SurfaceGroup =
  surfaces :: "Surface list"
  stop_surface :: "int option"
  wavelengths_nm :: "pyfloat list"
  primary_wavelength_index :: int
  field_type :: FieldType
  max_field :: pyfloat

definition get_encrypted_surfaces :: "SurfaceGroup \<Rightarrow> Surface list" where
  "get_encrypted_surfaces g = filter (\<lambda>s. visibility s = ENCRYPTED) (surfaces g)"

definition get_public_surfaces :: "SurfaceGroup \<Rightarrow> Surface list" where
  "get_public_surfaces g = filter (\<lambda>s. visibility s = PUBLIC) (surfaces g)"

definition get_redacted_surfaces :: "SurfaceGroup \<Rightarrow> Surface list" where
  "get_redacted_surfaces g = filter (\<lambda>s. visibility s = REDACTED) (surfaces g)"

definition has_selective_encryption :: "SurfaceGroup \<Rightarrow> bool" where
  "has_selective_encryption g = list_ex (\<lambda>s. visibility s \<noteq> PUBLIC) (surfaces g)"

datatype datetime = Timestamp int

record OBBMetadata =
  version :: string
  vendor_id :: string
  name :: string
  efl_mm :: pyfloat
  na :: pyfloat
  diameter_mm :: pyfloat
  spectral_range_nm :: "pyfloat \<times> pyfloat"
  num_surfaces :: int
  created_at :: "datetime option"
  signature :: string
  description :: "string option"
  part_number :: "string option"

section \<open>Collaborators of the codec\<close>

text \<open>
  The codec calls into Python's library and into modules of the package that are taken
  here as given: each is a field of the environment \<open>env\<close>, typed by what the call sites
  pass and expect. The type variables are the private keys, the public keys, the
  entropy that key generation, encryption and signing consume, and the header record.

  \<^item> \<open>OBB_MAGIC\<close>: the constant of \<open>formats/obb_constants.py\<close>.
  \<^item> \<open>py_float\<close>: \<open>float(s)\<close> on a \<open>str\<close>; \<open>py_float_int\<close>: \<open>float(n)\<close> on an \<open>int\<close>, the
    nearest double, \<open>None\<close> when the \<open>int\<close> is beyond the range of a double;
    \<open>lax_float_str\<close>, \<open>lax_int_str\<close>: Pydantic's reading of a numeric string for a
    \<open>float\<close> or \<open>int\<close> field; \<open>None\<close> is the failure.
  \<^item> \<open>py_str\<close>: the text an f-string puts for a value.
  \<^item> \<open>json_dumps\<close>: \<open>json.dumps(v).encode("utf-8")\<close>; \<open>json_loads_utf8\<close>:
    \<open>json.loads(b.decode("utf-8"))\<close>; \<open>json_loads_bytes\<close>: \<open>json.loads(b)\<close> on bytes; both
    fail with \<open>UnicodeDecodeError\<close> or \<open>JSONDecodeError\<close>.
  \<^item> \<open>b64encode\<close>, \<open>b64decode\<close>: \<open>base64.b64encode(b).decode("ascii")\<close> and
    \<open>base64.b64decode\<close>.
  \<^item> \<open>model_dump_json\<close>: \<open>surface_group.model_dump_json().encode("utf-8")\<close>;
    \<open>model_validate_json\<close>: \<open>SurfaceGroup.model_validate_json\<close>.
  \<^item> \<open>generate_ephemeral_keypair\<close> (\<open>crypto/ecdh.py\<close>), \<open>encrypt\<close>, \<open>decrypt\<close>
    (\<open>OBBEncryptor\<close>), \<open>sign\<close>, \<open>verify\<close> (\<open>OBBSigner\<close>), of \<open>crypto/hybrid.py\<close>.
  \<^item> \<open>build_header\<close>, \<open>serialize_header\<close>, \<open>deserialize_header\<close>, \<open>extract_metadata\<close>,
    \<open>extract_ephemeral_key\<close>: \<open>formats/obb_header.py\<close>.
\<close>

record ('sk, 'pk, 'r, 'h) env =
  OBB_MAGIC :: string
  py_float :: "string \<Rightarrow> pyfloat option"
  py_float_int :: "int \<Rightarrow> pyfloat option"
  lax_float_str :: "string \<Rightarrow> pyfloat option"
  lax_int_str :: "string \<Rightarrow> int option"
  py_str :: "json \<Rightarrow> string"
  json_dumps :: "json \<Rightarrow> string"
  json_loads_utf8 :: "string \<Rightarrow> error + json"
  json_loads_bytes :: "string \<Rightarrow> error + json"
  b64encode :: "string \<Rightarrow> string"
  b64decode :: "string \<Rightarrow> error + string"
  model_dump_json :: "SurfaceGroup \<Rightarrow> string"
  model_validate_json :: "string \<Rightarrow> error + SurfaceGroup"
  generate_ephemeral_keypair :: "'r \<Rightarrow> ('sk \<times> 'pk) \<times> 'r"
  encrypt :: "string \<Rightarrow> 'pk \<Rightarrow> 'r \<Rightarrow> (string \<times> 'pk) \<times> 'r"
  decrypt :: "string \<Rightarrow> 'pk \<Rightarrow> 'sk \<Rightarrow> error + string"
  sign :: "string \<Rightarrow> 'sk \<Rightarrow> 'r \<Rightarrow> string \<times> 'r"
  verify :: "string \<Rightarrow> string \<Rightarrow> 'pk \<Rightarrow> error + bool"
  build_header :: "OBBMetadata \<Rightarrow> 'pk \<Rightarrow> 'h"
  serialize_header :: "'h \<Rightarrow> string"
  deserialize_header :: "string \<Rightarrow> error + 'h"
  extract_metadata :: "'h \<Rightarrow> error + OBBMetadata"
  extract_ephemeral_key :: "'h \<Rightarrow> error + 'pk"

section \<open>Validation and serialization of a Surface\<close>

text \<open>
  Pydantic validates a field in lax mode. An \<open>int\<close> field takes an \<open>int\<close>, a \<open>bool\<close>, a
  finite \<open>float\<close> without fractional part and strictly between \<open>-2^63\<close> and \<open>2^63\<close>, or
  a numeric string; a \<open>float\<close> field takes a \<open>float\<close>, an \<open>int\<close> within the range of a double
  (as the nearest double), a \<open>bool\<close> or a numeric string; a \<open>str\<close> field takes a \<open>str\<close>
  only; an enumeration takes one of its values. A failure is a \<open>ValidationError\<close>.
\<close>

fun v_int :: "('sk, 'pk, 'r, 'h) env \<Rightarrow> json \<Rightarrow> error + int" where
  "v_int E (JInt n) = Inr n"
| "v_int E (JBool b) = Inr (if b then 1 else 0)"
| "v_int E (JFloat (Fin x)) =
     (if x = of_int \<lfloor>x\<rfloor> \<and> - (2 ^ 63) < x \<and> x < 2 ^ 63 then Inr \<lfloor>x\<rfloor>
      else Inl ValidationError)"
| "v_int E (JStr s) =
     (case lax_int_str E s of None \<Rightarrow> Inl ValidationError | Some n \<Rightarrow> Inr n)"
| "v_int E _ = Inl ValidationError"

fun v_float :: "('sk, 'pk, 'r, 'h) env \<Rightarrow> json \<Rightarrow> error + pyfloat" where
  "v_float E (JFloat v) = Inr v"
| "v_float E (JInt n) =
     (case py_float_int E n of None \<Rightarrow> Inl ValidationError | Some v \<Rightarrow> Inr v)"
| "v_float E (JBool b) = Inr (Fin (if b then 1 else 0))"
| "v_float E (JStr s) =
     (case lax_float_str E s of None \<Rightarrow> Inl ValidationError | Some v \<Rightarrow> Inr v)"
| "v_float E _ = Inl ValidationError"

text \<open>\<open>Field(..., ge=0)\<close> on an \<open>int\<close> and on a \<open>float\<close>.\<close>

definition v_int_ge0 :: "('sk, 'pk, 'r, 'h) env \<Rightarrow> json \<Rightarrow> error + int" where
  "v_int_ge0 E x = bindE (v_int E x) (\<lambda>n. if 0 \<le> n then Inr n else Inl ValidationError)"

definition v_float_ge0 :: "('sk, 'pk, 'r, 'h) env \<Rightarrow> json \<Rightarrow> error + pyfloat" where
  "v_float_ge0 E x =
     bindE (v_float E x) (\<lambda>v. if fge v (Fin 0) then Inr v else Inl ValidationError)"

definition v_surface_type :: "json \<Rightarrow> error + SurfaceType" where
  "v_surface_type x =
     (if x = JStr ''standard'' then Inr STANDARD
      else if x = JStr ''evenasph'' then Inr EVENASPH
      else if x = JStr ''oddasph'' then Inr ODDASPH
      else if x = JStr ''toroidal'' then Inr TOROIDAL
      else Inl ValidationError)"

definition v_visibility :: "json \<Rightarrow> error + SurfaceVisibility" where
  "v_visibility x =
     (if x = JStr ''public'' then Inr PUBLIC
      else if x = JStr ''encrypted'' then Inr ENCRYPTED
      else if x = JStr ''redacted'' then Inr REDACTED
      else Inl ValidationError)"

fun v_opt_str :: "json \<Rightarrow> error + string option" where
  "v_opt_str JNull = Inr None"
| "v_opt_str (JStr s) = Inr (Some s)"
| "v_opt_str _ = Inl ValidationError"

fun v_coeffs :: "('sk, 'pk, 'r, 'h) env \<Rightarrow> (string \<times> json) list
    \<Rightarrow> error + (string \<times> pyfloat) list" where
  "v_coeffs E [] = Inr []"
| "v_coeffs E ((k, x) # kvs) =
     bindE (v_float E x) (\<lambda>v. bindE (v_coeffs E kvs) (\<lambda>r. Inr ((k, v) # r)))"

fun v_opt_coeffs :: "('sk, 'pk, 'r, 'h) env \<Rightarrow> json
    \<Rightarrow> error + (string \<times> pyfloat) list option" where
  "v_opt_coeffs E JNull = Inr None"
| "v_opt_coeffs E (JDict kvs) = bindE (v_coeffs E kvs) (\<lambda>r. Inr (Some r))"
| "v_opt_coeffs E _ = Inl ValidationError"

text \<open>
  The \<open>radius\<close> field: \<open>parse_radius\<close> runs before the \<open>float\<close> validation, which then
  accepts the float it returns. Its \<open>ValueError\<close> is reported as a \<open>ValidationError\<close>; its
  \<open>TypeError\<close> and its \<open>OverflowError\<close> are not caught by Pydantic.
\<close>

definition v_radius :: "('sk, 'pk, 'r, 'h) env \<Rightarrow> json \<Rightarrow> error + pyfloat" where
  "v_radius E x =
     (case parse_radius (py_float E) (py_float_int E) x of
        Inl e \<Rightarrow> (if e = PyValueError then Inl ValidationError else Inl e)
      | Inr v \<Rightarrow> Inr v)"

text \<open>A field with a default: an absent key gives the default, which is not validated.\<close>

definition field :: "(string \<times> json) list \<Rightarrow> string \<Rightarrow> 'a \<Rightarrow> (json \<Rightarrow> error + 'a) \<Rightarrow> error + 'a" where
  "field d k dflt v = (case map_of d k of None \<Rightarrow> Inr dflt | Some x \<Rightarrow> v x)"

text \<open>
  \<open>Surface.model_validate(d)\<close>, which is also \<open>Surface(**d)\<close>. The model keeps Pydantic's
  default \<open>extra="ignore"\<close>: a key that is no field of the model is dropped. Pydantic
  validates every field and collects the failures into one \<open>ValidationError\<close>, so a
  \<open>TypeError\<close> or an \<open>OverflowError\<close> of \<open>parse_radius\<close> escapes whatever the other fields
  hold.
\<close>

definition Surface_validate :: "('sk, 'pk, 'r, 'h) env \<Rightarrow> json \<Rightarrow> error + Surface" where
  "Surface_validate E j =
     (case j of
        JDict d \<Rightarrow>
          (if field d ''radius'' PosInf (v_radius E) = Inl PyTypeError then Inl PyTypeError
           else if field d ''radius'' PosInf (v_radius E) = Inl PyOverflowError
             then Inl PyOverflowError
           else
             bindE (case map_of d ''surface_number'' of
                      None \<Rightarrow> Inl ValidationError | Some x \<Rightarrow> v_int_ge0 E x) (\<lambda>sn.
             bindE (field d ''surface_type'' STANDARD v_surface_type) (\<lambda>st.
             bindE (field d ''radius'' PosInf (v_radius E)) (\<lambda>r.
             bindE (field d ''thickness'' (Fin 0) (v_float E)) (\<lambda>th.
             bindE (field d ''semi_diameter'' (Fin 0) (v_float_ge0 E)) (\<lambda>sd.
             bindE (field d ''conic'' (Fin 0) (v_float E)) (\<lambda>co.
             bindE (field d ''material'' None v_opt_str) (\<lambda>ma.
             bindE (field d ''aspheric_coeffs'' None (v_opt_coeffs E)) (\<lambda>ac.
             bindE (field d ''decenter_x'' (Fin 0) (v_float E)) (\<lambda>dx.
             bindE (field d ''decenter_y'' (Fin 0) (v_float E)) (\<lambda>dy.
             bindE (field d ''tilt_x'' (Fin 0) (v_float E)) (\<lambda>tx.
             bindE (field d ''tilt_y'' (Fin 0) (v_float E)) (\<lambda>ty.
             bindE (field d ''visibility'' PUBLIC v_visibility) (\<lambda>vi.
             Inr \<lparr>surface_number = sn, surface_type = st, radius = r, thickness = th,
                  semi_diameter = sd, conic = co, material = ma, aspheric_coeffs = ac,
                  decenter_x = dx, decenter_y = dy, tilt_x = tx, tilt_y = ty,
                  visibility = vi\<rparr>))))))))))))))
      | _ \<Rightarrow> Inl ValidationError)"

text \<open>
  \<open>s.model_dump(mode="json")\<close>: the fields in declaration order, \<open>radius\<close> through its
  serializer, an enumeration as its value, a float as it is.
\<close>

definition Surface_dump :: "Surface \<Rightarrow> json" where
  "Surface_dump s = JDict
     [(''surface_number'', JInt (surface_number s)),
      (''surface_type'', JStr (SurfaceType_value (surface_type s))),
      (''radius'', JFloat (serialize_radius (radius s))),
      (''thickness'', JFloat (thickness s)),
      (''semi_diameter'', JFloat (semi_diameter s)),
      (''conic'', JFloat (conic s)),
      (''material'', (case material s of None \<Rightarrow> JNull | Some m \<Rightarrow> JStr m)),
      (''aspheric_coeffs'',
         (case aspheric_coeffs s of
            None \<Rightarrow> JNull
          | Some kvs \<Rightarrow> JDict (map (\<lambda>(k, v). (k, JFloat v)) kvs))),
      (''decenter_x'', JFloat (decenter_x s)),
      (''decenter_y'', JFloat (decenter_y s)),
      (''tilt_x'', JFloat (tilt_x s)),
      (''tilt_y'', JFloat (tilt_y s)),
      (''visibility'', JStr (SurfaceVisibility_value (visibility s)))]"

section \<open>Python idioms used by the codec\<close>

text \<open>\<open>d.get(k, default)\<close>; the truth value of an object; iteration over an object.\<close>

definition dget :: "(string \<times> json) list \<Rightarrow> string \<Rightarrow> json \<Rightarrow> json" where
  "dget d k dflt = (case map_of d k of None \<Rightarrow> dflt | Some v \<Rightarrow> v)"

fun truthy :: "json \<Rightarrow> bool" where
  "truthy JNull = False"
| "truthy (JBool b) = b"
| "truthy (JInt n) = (n \<noteq> 0)"
| "truthy (JFloat v) = (v \<noteq> Fin 0)"
| "truthy (JStr s) = (s \<noteq> [])"
| "truthy (JList xs) = (xs \<noteq> [])"
| "truthy (JDict kvs) = (kvs \<noteq> [])"

fun py_iter :: "json \<Rightarrow> error + json list" where
  "py_iter (JList xs) = Inr xs"
| "py_iter (JStr s) = Inr (map (\<lambda>c. JStr [c]) s)"
| "py_iter (JDict kvs) = Inr (map (\<lambda>kv. JStr (fst kv)) kvs)"
| "py_iter _ = Inl PyTypeError"

text \<open>A list comprehension over a fallible function: the first failure is raised.\<close>

fun mapE :: "('a \<Rightarrow> error + 'b) \<Rightarrow> 'a list \<Rightarrow> error + 'b list" where
  "mapE f [] = Inr []"
| "mapE f (x # xs) = bindE (f x) (\<lambda>y. bindE (mapE f xs) (\<lambda>ys. Inr (y # ys)))"

section \<open>Calls observed\<close>

text \<open>
  The cryptographic calls a run makes are recorded in order. A reading operation returns
  its trace with its outcome; a writing operation threads the entropy and the trace.
\<close>

datatype event =
    EvGenKeypair
  | EvEncrypt string
  | EvSign string
  | EvVerify string string
  | EvDecrypt string

type_synonym 'a traced = "event list \<times> (error + 'a)"

definition liftT :: "error + 'a \<Rightarrow> 'a traced" where
  "liftT m = ([], m)"

definition bindT :: "'a traced \<Rightarrow> ('a \<Rightarrow> 'b traced) \<Rightarrow> 'b traced" where
  "bindT m f =
     (case snd m of
        Inl e \<Rightarrow> (fst m, Inl e)
      | Inr x \<Rightarrow> (fst m @ fst (f x), snd (f x)))"

definition OBBEncryptor_decrypt :: "('sk, 'pk, 'r, 'h) env \<Rightarrow> string \<Rightarrow> 'pk \<Rightarrow> 'sk \<Rightarrow> string traced" where
  "OBBEncryptor_decrypt E c eph sk = ([EvDecrypt c], decrypt E c eph sk)"

definition OBBSigner_verify :: "('sk, 'pk, 'r, 'h) env \<Rightarrow> string \<Rightarrow> string \<Rightarrow> 'pk \<Rightarrow> bool traced" where
  "OBBSigner_verify E d sg pk = ([EvVerify d sg], verify E d sg pk)"

definition OBBEncryptor_encrypt :: "('sk, 'pk, 'r, 'h) env \<Rightarrow> string \<Rightarrow> 'pk \<Rightarrow> 'r \<times> event list
    \<Rightarrow> (string \<times> 'pk) \<times> ('r \<times> event list)" where
  "OBBEncryptor_encrypt E pt pk w =
     (fst (encrypt E pt pk (fst w)), (snd (encrypt E pt pk (fst w)), snd w @ [EvEncrypt pt]))"

definition ecdh_generate_ephemeral_keypair :: "('sk, 'pk, 'r, 'h) env \<Rightarrow> 'r \<times> event list
    \<Rightarrow> ('sk \<times> 'pk) \<times> ('r \<times> event list)" where
  "ecdh_generate_ephemeral_keypair E w =
     (fst (generate_ephemeral_keypair E (fst w)),
      (snd (generate_ephemeral_keypair E (fst w)), snd w @ [EvGenKeypair]))"

definition OBBSigner_sign :: "('sk, 'pk, 'r, 'h) env \<Rightarrow> string \<Rightarrow> 'sk \<Rightarrow> 'r \<times> event list
    \<Rightarrow> string \<times> ('r \<times> event list)" where
  "OBBSigner_sign E d sk w =
     (fst (sign E d sk (fst w)), (snd (sign E d sk (fst w)), snd w @ [EvSign d]))"

section \<open>formats/obb\_payload.py\<close>

text \<open>\<open>encrypt_payload\<close> and \<open>decrypt_payload\<close>: the full-encryption mode.\<close>

definition encrypt_payload :: "('sk, 'pk, 'r, 'h) env \<Rightarrow> SurfaceGroup \<Rightarrow> 'pk \<Rightarrow> 'r \<times> event list
    \<Rightarrow> (string \<times> 'pk) \<times> ('r \<times> event list)" where
  "encrypt_payload E surface_group platform_public_key w =
     OBBEncryptor_encrypt E (model_dump_json E surface_group) platform_public_key w"

definition decrypt_payload :: "('sk, 'pk, 'r, 'h) env \<Rightarrow> string \<Rightarrow> 'pk \<Rightarrow> 'sk \<Rightarrow> SurfaceGroup traced" where
  "decrypt_payload E encrypted_payload ephemeral_public_key platform_private_key =
     bindT (OBBEncryptor_decrypt E encrypted_payload ephemeral_public_key platform_private_key)
       (\<lambda>payload_json. liftT (model_validate_json E payload_json))"

text \<open>
  The part of the payload dictionary that \<open>encrypt_payload_selective\<close> builds before it
  looks at the encrypted surfaces, in the order of the dictionary display.
\<close>

definition payload_base :: "SurfaceGroup \<Rightarrow> (string \<times> json) list" where
  "payload_base g =
     [(''encryption_mode'', JStr ''selective''),
      (''public_surfaces'', JList (map Surface_dump (get_public_surfaces g))),
      (''redacted_surface_indices'',
         JList (map (\<lambda>s. JInt (surface_number s)) (get_redacted_surfaces g))),
      (''wavelengths_nm'', JList (map JFloat (wavelengths_nm g))),
      (''primary_wavelength_index'', JInt (primary_wavelength_index g)),
      (''stop_surface'', (case stop_surface g of None \<Rightarrow> JNull | Some n \<Rightarrow> JInt n)),
      (''field_type'', JStr (FieldType_value (field_type g))),
      (''max_field'', JFloat (max_field g))]"

text \<open>The dictionary \<open>encrypted_data\<close> whose JSON text is encrypted.\<close>

definition encrypted_data :: "SurfaceGroup \<Rightarrow> json" where
  "encrypted_data g = JDict [(''surfaces'', JList (map Surface_dump (get_encrypted_surfaces g)))]"

definition encrypt_payload_selective :: "('sk, 'pk, 'r, 'h) env \<Rightarrow> SurfaceGroup \<Rightarrow> 'pk
    \<Rightarrow> 'r \<times> event list \<Rightarrow> (json \<times> 'pk) \<times> ('r \<times> event list)" where
  "encrypt_payload_selective E surface_group platform_public_key w =
     (if get_encrypted_surfaces surface_group \<noteq> [] then
        (let encrypted_json = json_dumps E (encrypted_data surface_group);
             enc = OBBEncryptor_encrypt E encrypted_json platform_public_key w
         in ((JDict (payload_base surface_group @
                     [(''encrypted_surfaces_data'', JStr (b64encode E (fst (fst enc))))]),
              snd (fst enc)),
             snd enc))
      else
        (let kp = ecdh_generate_ephemeral_keypair E w
         in ((JDict (payload_base surface_group @ [(''encrypted_surfaces_data'', JStr [])]),
              snd (fst kp)),
             snd kp)))"

text \<open>
  The constructor call \<open>SurfaceGroup(surfaces=..., wavelengths_nm=..., ...)\<close> at the end of
  \<open>decrypt_payload_selective\<close>: the surfaces are \<open>Surface\<close> objects already, the other
  arguments are what \<open>payload_dict.get\<close> returned. The constraints are those of the field
  declarations (\<open>min_length=1\<close>, \<open>ge=0\<close>, the two literals of \<open>field_type\<close>).
\<close>

definition v_stop_surface :: "('sk, 'pk, 'r, 'h) env \<Rightarrow> json \<Rightarrow> error + int option" where
  "v_stop_surface E x =
     (if x = JNull then Inr None else bindE (v_int_ge0 E x) (\<lambda>n. Inr (Some n)))"

definition v_wavelengths :: "('sk, 'pk, 'r, 'h) env \<Rightarrow> json \<Rightarrow> error + pyfloat list" where
  "v_wavelengths E x =
     (case x of
        JList xs \<Rightarrow> (if xs = [] then Inl ValidationError else mapE (v_float E) xs)
      | _ \<Rightarrow> Inl ValidationError)"

definition v_field_type :: "json \<Rightarrow> error + FieldType" where
  "v_field_type x =
     (if x = JStr ''angle'' then Inr Angle
      else if x = JStr ''height'' then Inr Height
      else Inl ValidationError)"

definition SurfaceGroup_init :: "('sk, 'pk, 'r, 'h) env \<Rightarrow> Surface list \<Rightarrow> json \<Rightarrow> json \<Rightarrow> json
    \<Rightarrow> json \<Rightarrow> json \<Rightarrow> error + SurfaceGroup" where
  "SurfaceGroup_init E ss wl pwi stop ft mf =
     bindE (if ss = [] then Inl ValidationError else Inr ss) (\<lambda>ss'.
     bindE (v_stop_surface E stop) (\<lambda>stop'.
     bindE (v_wavelengths E wl) (\<lambda>wl'.
     bindE (v_int_ge0 E pwi) (\<lambda>pwi'.
     bindE (v_field_type ft) (\<lambda>ft'.
     bindE (v_float_ge0 E mf) (\<lambda>mf'.
     Inr \<lparr>surfaces = ss', stop_surface = stop', wavelengths_nm = wl',
          primary_wavelength_index = pwi', field_type = ft', max_field = mf'\<rparr>))))))"

text \<open>
  The placeholder built for one entry of \<open>redacted_surface_indices\<close>: the call
  \<open>Surface(surface_number=idx, surface_type="standard",
  visibility=SurfaceVisibility.REDACTED, comment=f"Surface {idx} (redacted)")\<close>.
\<close>

definition placeholder_kwargs :: "('sk, 'pk, 'r, 'h) env \<Rightarrow> json \<Rightarrow> (string \<times> json) list" where
  "placeholder_kwargs E idx =
     [(''surface_number'', idx),
      (''surface_type'', JStr ''standard''),
      (''visibility'', JStr ''redacted''),
      (''comment'', JStr (''Surface '' @ py_str E idx @ '' (redacted)''))]"

definition redacted_placeholder :: "('sk, 'pk, 'r, 'h) env \<Rightarrow> json \<Rightarrow> error + Surface" where
  "redacted_placeholder E idx = Surface_validate E (JDict (placeholder_kwargs E idx))"

text \<open>\<open>base64.b64decode\<close> takes a string; any other JSON value is a \<open>TypeError\<close>.\<close>

definition py_b64decode :: "('sk, 'pk, 'r, 'h) env \<Rightarrow> json \<Rightarrow> error + string" where
  "py_b64decode E x = (case x of JStr s \<Rightarrow> b64decode E s | _ \<Rightarrow> Inl PyTypeError)"

text \<open>\<open>encrypted_data.get("surfaces", [])\<close> on what \<open>json.loads\<close> returned.\<close>

definition get_surfaces :: "json \<Rightarrow> error + json" where
  "get_surfaces x =
     (case x of JDict ed \<Rightarrow> Inr (dget ed ''surfaces'' (JList [])) | _ \<Rightarrow> Inl PyAttributeError)"

definition decrypt_payload_selective :: "('sk, 'pk, 'r, 'h) env \<Rightarrow> json \<Rightarrow> 'pk \<Rightarrow> 'sk
    \<Rightarrow> SurfaceGroup traced" where
  "decrypt_payload_selective E payload_dict ephemeral_public_key platform_private_key =
     (case payload_dict of
        JDict d \<Rightarrow>
          bindT (liftT (bindE (py_iter (dget d ''public_surfaces'' (JList [])))
                          (mapE (Surface_validate E)))) (\<lambda>public_surfaces.
          bindT (if truthy (dget d ''encrypted_surfaces_data'' (JStr [])) then
                   bindT (liftT (py_b64decode E (dget d ''encrypted_surfaces_data'' (JStr []))))
                     (\<lambda>encrypted_data_bytes.
                   bindT (OBBEncryptor_decrypt E encrypted_data_bytes ephemeral_public_key
                            platform_private_key) (\<lambda>decrypted_json.
                   liftT (bindE (json_loads_bytes E decrypted_json) (\<lambda>enc_data.
                          bindE (get_surfaces enc_data) (\<lambda>raw.
                          bindE (py_iter raw) (mapE (Surface_validate E)))))))
                 else liftT (Inr [])) (\<lambda>encrypted_surfaces.
          bindT (liftT (bindE (py_iter (dget d ''redacted_surface_indices'' (JList [])))
                          (mapE (redacted_placeholder E)))) (\<lambda>redacted_surfaces.
          liftT (SurfaceGroup_init E
                   (sort_key surface_number
                      (public_surfaces @ encrypted_surfaces @ redacted_surfaces))
                   (dget d ''wavelengths_nm'' (JList [JFloat (Fin 550)]))
                   (dget d ''primary_wavelength_index'' (JInt 0))
                   (dget d ''stop_surface'' JNull)
                   (dget d ''field_type'' JNull)
                   (dget d ''max_field'' JNull)))))
      | _ \<Rightarrow> liftT (Inl PyAttributeError))"

text \<open>\<open>sign_payload\<close> and \<open>verify_payload_signature\<close> delegate to \<open>OBBSigner\<close>.\<close>

definition sign_payload :: "('sk, 'pk, 'r, 'h) env \<Rightarrow> string \<Rightarrow> 'sk \<Rightarrow> 'r \<times> event list
    \<Rightarrow> string \<times> ('r \<times> event list)" where
  "sign_payload E encrypted_payload vendor_private_key w =
     OBBSigner_sign E encrypted_payload vendor_private_key w"

definition verify_payload_signature :: "('sk, 'pk, 'r, 'h) env \<Rightarrow> string \<Rightarrow> string \<Rightarrow> 'pk
    \<Rightarrow> bool traced" where
  "verify_payload_signature E encrypted_payload signature_b64 vendor_public_key =
     OBBSigner_verify E encrypted_payload signature_b64 vendor_public_key"

section \<open>Files and container framing\<close>

text \<open>
  A path either cannot be opened for reading (\<open>open\<close> raises), or opens on a file whose
  bytes can be read, or opens on a file whose reads raise. Opening a path for writing
  either raises or succeeds. A handle is the content with the read position.
\<close>

datatype file_node = File string | Unreadable error

record filesystem =
  files :: "string \<Rightarrow> error + file_node"
  write_fault :: "string \<Rightarrow> error option"

datatype handle = Handle string nat | BrokenHandle error

definition open_rb :: "filesystem \<Rightarrow> string \<Rightarrow> error + handle" where
  "open_rb fs path =
     (case files fs path of
        Inl e \<Rightarrow> Inl e
      | Inr (File c) \<Rightarrow> Inr (Handle c 0)
      | Inr (Unreadable e) \<Rightarrow> Inr (BrokenHandle e))"

text \<open>\<open>f.read(n)\<close> and \<open>f.read()\<close>.\<close>

fun f_read :: "nat \<Rightarrow> handle \<Rightarrow> error + (string \<times> handle)" where
  "f_read n (Handle c p) =
     Inr (take n (drop p c), Handle c (p + length (take n (drop p c))))"
| "f_read n (BrokenHandle e) = Inl e"

fun f_read_all :: "handle \<Rightarrow> error + (string \<times> handle)" where
  "f_read_all (Handle c p) = Inr (drop p c, Handle c (p + length (drop p c)))"
| "f_read_all (BrokenHandle e) = Inl e"

text \<open>The four bytes of an unsigned 32-bit integer, least significant first, and back.\<close>

definition u32le :: "nat \<Rightarrow> string" where
  "u32le n = [char_of n, char_of (n div 256), char_of (n div 65536), char_of (n div 16777216)]"

definition le32 :: "string \<Rightarrow> nat" where
  "le32 b = of_char (b ! 0) + 256 * of_char (b ! 1) + 65536 * of_char (b ! 2)
            + 16777216 * of_char (b ! 3)"

text \<open>
  Modelled from the spec: \<open>serialization/binary.py\<close> (\<open>BinaryWriter\<close>, \<open>BinaryReader\<close>) is
  not among the sources. The spec gives the layout
  \<open>magic || u32LE(len(header_bytes)) || header_bytes || payload_bytes\<close>, a magic check on
  the first bytes, a malformed-container error (\<open>InvalidOBBFileError\<close>) when fewer bytes
  remain than the declared header length, and the payload as everything after the
  header. A length that does not fit 32 bits cannot be packed.
\<close>

definition write_magic :: "string \<Rightarrow> string \<Rightarrow> string" where
  "write_magic magic stream = stream @ magic"

definition write_length_prefixed :: "string \<Rightarrow> string \<Rightarrow> error + string" where
  "write_length_prefixed data stream =
     (if length data < 2 ^ 32 then Inr (stream @ u32le (length data) @ data)
      else Inl StructError)"

definition write_bytes :: "string \<Rightarrow> string \<Rightarrow> string" where
  "write_bytes data stream = stream @ data"

definition read_and_verify_magic :: "string \<Rightarrow> handle \<Rightarrow> error + (bool \<times> handle)" where
  "read_and_verify_magic magic f =
     bindE (f_read (length magic) f) (\<lambda>r. Inr (fst r = magic, snd r))"

definition read_length_prefixed :: "handle \<Rightarrow> error + (string \<times> handle)" where
  "read_length_prefixed f =
     bindE (f_read 4 f) (\<lambda>r.
       if length (fst r) < 4 then Inl InvalidOBBFileError
       else bindE (f_read (le32 (fst r)) (snd r)) (\<lambda>d.
              if length (fst d) < le32 (fst r) then Inl InvalidOBBFileError else Inr d))"

definition read_rest :: "handle \<Rightarrow> error + (string \<times> handle)" where
  "read_rest f = f_read_all f"

section \<open>formats/obb\_file.py: OBBWriter\<close>

text \<open>
  \<open>_write_to_stream\<close> and \<open>_write_selective_to_stream\<close> return the stream as written so
  far, the metadata object as mutated, the exception raised if any, and the entropy
  and trace. \<open>now\<close> is the value of \<open>datetime.utcnow()\<close>.
\<close>

definition write_to_stream :: "('sk, 'pk, 'r, 'h) env \<Rightarrow> string \<Rightarrow> SurfaceGroup \<Rightarrow> OBBMetadata
    \<Rightarrow> 'sk \<Rightarrow> 'pk \<Rightarrow> datetime \<Rightarrow> 'r \<times> event list
    \<Rightarrow> string \<times> OBBMetadata \<times> error option \<times> ('r \<times> event list)" where
  "write_to_stream E stream surface_group metadata vendor_private_key platform_public_key now w =
     (let enc = encrypt_payload E surface_group platform_public_key w;
          encrypted_payload = fst (fst enc);
          ephemeral_public = snd (fst enc);
          sg = sign_payload E encrypted_payload vendor_private_key (snd enc);
          metadata' = metadata\<lparr>signature := fst sg, created_at := Some now\<rparr>;
          header_bytes = serialize_header E (build_header E metadata' ephemeral_public);
          s1 = write_magic (OBB_MAGIC E) stream
      in case write_length_prefixed header_bytes s1 of
           Inl e \<Rightarrow> (s1, metadata', Some e, snd sg)
         | Inr s2 \<Rightarrow> (write_bytes encrypted_payload s2, metadata', None, snd sg))"

definition write_selective_to_stream :: "('sk, 'pk, 'r, 'h) env \<Rightarrow> string \<Rightarrow> SurfaceGroup
    \<Rightarrow> OBBMetadata \<Rightarrow> 'sk \<Rightarrow> 'pk \<Rightarrow> datetime \<Rightarrow> 'r \<times> event list
    \<Rightarrow> string \<times> OBBMetadata \<times> error option \<times> ('r \<times> event list)" where
  "write_selective_to_stream E stream surface_group metadata vendor_private_key
       platform_public_key now w =
     (let enc = encrypt_payload_selective E surface_group platform_public_key w;
          payload_dict = fst (fst enc);
          ephemeral_public = snd (fst enc);
          payload_bytes = json_dumps E payload_dict;
          sg = sign_payload E payload_bytes vendor_private_key (snd enc);
          metadata' = metadata\<lparr>signature := fst sg, created_at := Some now\<rparr>;
          header_bytes = serialize_header E (build_header E metadata' ephemeral_public);
          s1 = write_magic (OBB_MAGIC E) stream
      in case write_length_prefixed header_bytes s1 of
           Inl e \<Rightarrow> (s1, metadata', Some e, snd sg)
         | Inr s2 \<Rightarrow> (write_bytes payload_bytes s2, metadata', None, snd sg))"

text \<open>
  \<open>OBBWriter.write\<close> and \<open>OBBWriter.write_selective\<close>: create the parent directory, open
  the path for writing (either may raise, and then nothing is written), write the
  stream and close the file.
\<close>

definition OBBWriter_write :: "('sk, 'pk, 'r, 'h) env \<Rightarrow> filesystem \<Rightarrow> string \<Rightarrow> SurfaceGroup
    \<Rightarrow> OBBMetadata \<Rightarrow> 'sk \<Rightarrow> 'pk \<Rightarrow> datetime \<Rightarrow> 'r \<times> event list
    \<Rightarrow> filesystem \<times> OBBMetadata \<times> error option \<times> ('r \<times> event list)" where
  "OBBWriter_write E fs output_path surface_group metadata vendor_private_key
       platform_public_key now w =
     (case write_fault fs output_path of
        Some e \<Rightarrow> (fs, metadata, Some e, w)
      | None \<Rightarrow>
          (let r = write_to_stream E [] surface_group metadata vendor_private_key
                     platform_public_key now w
           in (fs\<lparr>files := (files fs)(output_path := Inr (File (fst r)))\<rparr>, snd r)))"

definition OBBWriter_write_selective :: "('sk, 'pk, 'r, 'h) env \<Rightarrow> filesystem \<Rightarrow> string
    \<Rightarrow> SurfaceGroup \<Rightarrow> OBBMetadata \<Rightarrow> 'sk \<Rightarrow> 'pk \<Rightarrow> datetime \<Rightarrow> 'r \<times> event list
    \<Rightarrow> filesystem \<times> OBBMetadata \<times> error option \<times> ('r \<times> event list)" where
  "OBBWriter_write_selective E fs output_path surface_group metadata vendor_private_key
       platform_public_key now w =
     (case write_fault fs output_path of
        Some e \<Rightarrow> (fs, metadata, Some e, w)
      | None \<Rightarrow>
          (let r = write_selective_to_stream E [] surface_group metadata vendor_private_key
                     platform_public_key now w
           in (fs\<lparr>files := (files fs)(output_path := Inr (File (fst r)))\<rparr>, snd r)))"

section \<open>formats/obb\_file.py: OBBReader\<close>

definition read_metadata :: "('sk, 'pk, 'r, 'h) env \<Rightarrow> filesystem \<Rightarrow> string \<Rightarrow> error + OBBMetadata" where
  "read_metadata E fs path =
     bindE (open_rb fs path) (\<lambda>f.
     bindE (read_and_verify_magic (OBB_MAGIC E) f) (\<lambda>m.
     if \<not> fst m then Inl InvalidMagicBytesError
     else
       bindE (read_length_prefixed (snd m)) (\<lambda>hb.
       bindE (deserialize_header E (fst hb)) (\<lambda>header.
       extract_metadata E header))))"

text \<open>
  The \<open>with open(path, "rb")\<close> block that \<open>read_and_decrypt\<close>,
  \<open>read_and_decrypt_selective\<close> and \<open>read\<close> each start with, line for line the same: the
  magic, the header, the rest of the file as the payload.
\<close>

definition read_container :: "('sk, 'pk, 'r, 'h) env \<Rightarrow> filesystem \<Rightarrow> string
    \<Rightarrow> error + ('h \<times> string)" where
  "read_container E fs path =
     bindE (open_rb fs path) (\<lambda>f.
     bindE (read_and_verify_magic (OBB_MAGIC E) f) (\<lambda>m.
     if \<not> fst m then Inl InvalidMagicBytesError
     else
       bindE (read_length_prefixed (snd m)) (\<lambda>hb.
       bindE (deserialize_header E (fst hb)) (\<lambda>header.
       bindE (read_rest (snd hb)) (\<lambda>p.
       Inr (header, fst p))))))"

text \<open>The block \<open>if verify_signature: if not verify_payload_signature(...): raise\<close>.\<close>

definition check_signature :: "('sk, 'pk, 'r, 'h) env \<Rightarrow> bool \<Rightarrow> string \<Rightarrow> string \<Rightarrow> 'pk
    \<Rightarrow> unit traced" where
  "check_signature E verify_signature payload signature_b64 vendor_public_key =
     (if verify_signature then
        bindT (verify_payload_signature E payload signature_b64 vendor_public_key)
          (\<lambda>ok. if \<not> ok then liftT (Inl InvalidSignatureError) else liftT (Inr ()))
      else liftT (Inr ()))"

definition read_and_decrypt :: "('sk, 'pk, 'r, 'h) env \<Rightarrow> filesystem \<Rightarrow> string \<Rightarrow> 'sk \<Rightarrow> 'pk
    \<Rightarrow> bool \<Rightarrow> (OBBMetadata \<times> SurfaceGroup) traced" where
  "read_and_decrypt E fs path platform_private_key vendor_public_key verify_signature =
     bindT (liftT (read_container E fs path)) (\<lambda>c.
     bindT (liftT (extract_metadata E (fst c))) (\<lambda>metadata.
     bindT (liftT (extract_ephemeral_key E (fst c))) (\<lambda>ephemeral_public.
     bindT (check_signature E verify_signature (snd c) (signature metadata)
              vendor_public_key) (\<lambda>_.
     bindT (decrypt_payload E (snd c) ephemeral_public platform_private_key)
       (\<lambda>surface_group.
     liftT (Inr (metadata, surface_group)))))))"

definition read_and_decrypt_selective :: "('sk, 'pk, 'r, 'h) env \<Rightarrow> filesystem \<Rightarrow> string \<Rightarrow> 'sk
    \<Rightarrow> 'pk \<Rightarrow> bool \<Rightarrow> (OBBMetadata \<times> SurfaceGroup) traced" where
  "read_and_decrypt_selective E fs path platform_private_key vendor_public_key
       verify_signature =
     bindT (liftT (read_container E fs path)) (\<lambda>c.
     bindT (liftT (extract_metadata E (fst c))) (\<lambda>metadata.
     bindT (liftT (extract_ephemeral_key E (fst c))) (\<lambda>ephemeral_public.
     bindT (check_signature E verify_signature (snd c) (signature metadata)
              vendor_public_key) (\<lambda>_.
     bindT (liftT (json_loads_utf8 E (snd c))) (\<lambda>payload_dict.
     bindT (decrypt_payload_selective E payload_dict ephemeral_public platform_private_key)
       (\<lambda>surface_group.
     liftT (Inr (metadata, surface_group))))))))"

text \<open>
  \<open>try: ... except (json.JSONDecodeError, UnicodeDecodeError): ...\<close>: the handler runs
  when the body raised one of the two; what the body had done stays done.
\<close>

definition is_json_error :: "error \<Rightarrow> bool" where
  "is_json_error e \<longleftrightarrow> e = JSONDecodeError \<or> e = UnicodeDecodeError"

definition catchT :: "'a traced \<Rightarrow> (error \<Rightarrow> bool) \<Rightarrow> 'a traced \<Rightarrow> 'a traced" where
  "catchT m p h =
     (case snd m of
        Inl e \<Rightarrow> (if p e then (fst m @ fst h, snd h) else m)
      | Inr x \<Rightarrow> m)"

text \<open>\<open>isinstance(payload_dict, dict) and payload_dict.get("encryption_mode") == "selective"\<close>.\<close>

definition is_selective :: "json \<Rightarrow> bool" where
  "is_selective payload_dict =
     (case payload_dict of
        JDict d \<Rightarrow> map_of d ''encryption_mode'' = Some (JStr ''selective'')
      | _ \<Rightarrow> False)"

definition read :: "('sk, 'pk, 'r, 'h) env \<Rightarrow> filesystem \<Rightarrow> string \<Rightarrow> 'sk \<Rightarrow> 'pk \<Rightarrow> bool
    \<Rightarrow> (OBBMetadata \<times> SurfaceGroup) traced" where
  "read E fs path platform_private_key vendor_public_key verify_signature =
     bindT (liftT (read_container E fs path)) (\<lambda>c.
     bindT (liftT (extract_metadata E (fst c))) (\<lambda>metadata.
     bindT (liftT (extract_ephemeral_key E (fst c))) (\<lambda>ephemeral_public.
     bindT (check_signature E verify_signature (snd c) (signature metadata)
              vendor_public_key) (\<lambda>_.
     bindT (catchT
              (bindT (liftT (json_loads_utf8 E (snd c))) (\<lambda>payload_dict.
                 if is_selective payload_dict then
                   decrypt_payload_selective E payload_dict ephemeral_public
                     platform_private_key
                 else decrypt_payload E (snd c) ephemeral_public platform_private_key))
              is_json_error
              (decrypt_payload E (snd c) ephemeral_public platform_private_key))
       (\<lambda>surface_group.
     liftT (Inr (metadata, surface_group)))))))"

text \<open>
  \<open>OBBReader.is_valid_obb_file\<close>. \<open>magic_probe\<close> is the body of the \<open>try\<close>; it also returns
  the handle, which tells how far the file was read. \<open>except Exception\<close> catches every
  error of the model.
\<close>

definition magic_probe :: "('sk, 'pk, 'r, 'h) env \<Rightarrow> filesystem \<Rightarrow> string \<Rightarrow> error + (bool \<times> handle)" where
  "magic_probe E fs path =
     bindE (open_rb fs path) (\<lambda>f.
     bindE (f_read (length (OBB_MAGIC E)) f) (\<lambda>r.
     Inr (fst r = OBB_MAGIC E, snd r)))"

definition is_valid_obb_file :: "('sk, 'pk, 'r, 'h) env \<Rightarrow> filesystem \<Rightarrow> string \<Rightarrow> error + bool" where
  "is_valid_obb_file E fs path =
     (case magic_probe E fs path of
        Inl e \<Rightarrow> Inr False
      | Inr r \<Rightarrow> Inr (fst r))"

section \<open>Order of verification and decryption\<close>

text \<open>
  A trace is guarded when every decryption call in it comes after a signature
  verification that returned \<open>True\<close> under the given vendor key. The flag says whether
  such a verification has been seen.
\<close>

fun guarded :: "('sk, 'pk, 'r, 'h) env \<Rightarrow> 'pk \<Rightarrow> bool \<Rightarrow> event list \<Rightarrow> bool" where
  "guarded E vpk ok [] = True"
| "guarded E vpk ok (EvVerify p sg # t) = guarded E vpk (ok \<or> verify E p sg vpk = Inr True) t"
| "guarded E vpk ok (EvDecrypt c # t) = (ok \<and> guarded E vpk ok t)"
| "guarded E vpk ok (EvGenKeypair # t) = guarded E vpk ok t"
| "guarded E vpk ok (EvEncrypt pt # t) = guarded E vpk ok t"
| "guarded E vpk ok (EvSign d # t) = guarded E vpk ok t"

text \<open>
  The three reading operations, called with \<open>verify_signature=True\<close>, have one shape:
  the container is read, the metadata and the ephemeral key are extracted, the
  signature is checked, and only then the rest runs.
\<close>

definition verified_read :: "('sk, 'pk, 'r, 'h) env \<Rightarrow> 'pk \<Rightarrow> error + ('h \<times> string)
    \<Rightarrow> ('h \<times> string \<Rightarrow> OBBMetadata \<Rightarrow> 'pk \<Rightarrow> 'a traced) \<Rightarrow> 'a traced" where
  "verified_read E vpk rc rest =
     bindT (liftT rc) (\<lambda>c.
     bindT (liftT (extract_metadata E (fst c))) (\<lambda>md.
     bindT (liftT (extract_ephemeral_key E (fst c))) (\<lambda>eph.
     bindT (check_signature E True (snd c) (signature md) vpk) (\<lambda>_. rest c md eph))))"

section \<open>Well-formed groups and the view of the platform\<close>

text \<open>
  The constraints of the field declarations of \<open>Surface\<close>: \<open>ge=0\<close> on \<open>surface_number\<close> and
  on \<open>semi_diameter\<close>. The radius is not constrained: \<open>parse_radius\<close> lets \<open>-\<infinity>\<close> and
  magnitudes of \<open>1e99\<close> or more through when they come as a string, and rounds an \<open>int\<close>
  just below \<open>1e99\<close> up to it.
\<close>

definition Surface_ok :: "Surface \<Rightarrow> bool" where
  "Surface_ok s \<longleftrightarrow> 0 \<le> surface_number s \<and> fge (semi_diameter s) (Fin 0)"

text \<open>The constraints of the field declarations of \<open>SurfaceGroup\<close>.\<close>

definition SurfaceGroup_ok :: "SurfaceGroup \<Rightarrow> bool" where
  "SurfaceGroup_ok g \<longleftrightarrow> surfaces g \<noteq> [] \<and> list_all Surface_ok (surfaces g)
     \<and> (case stop_surface g of None \<Rightarrow> True | Some n \<Rightarrow> 0 \<le> n)
     \<and> wavelengths_nm g \<noteq> [] \<and> 0 \<le> primary_wavelength_index g
     \<and> fge (max_field g) (Fin 0)"

text \<open>
  The surface that stands for a redacted one: its number, visibility \<open>REDACTED\<close>, and
  the default of every other field.
\<close>

definition withheld :: "int \<Rightarrow> Surface" where
  "withheld n = \<lparr>surface_number = n, surface_type = STANDARD, radius = PosInf,
     thickness = Fin 0, semi_diameter = Fin 0, conic = Fin 0, material = None,
     aspheric_coeffs = None, decenter_x = Fin 0, decenter_y = Fin 0, tilt_x = Fin 0,
     tilt_y = Fin 0, visibility = REDACTED\<rparr>"

text \<open>
  What the spec says a reader gets for a surface of the original design: a public or an
  encrypted surface as it was, a redacted one as its ordinal with default geometry.
\<close>

definition spec_view :: "Surface \<Rightarrow> Surface" where
  "spec_view s = (if visibility s = REDACTED then withheld (surface_number s) else s)"

text \<open>
  What the code gives back for a radius that was serialized and parsed again: \<open>+\<infinity>\<close> for
  an infinity of either sign and for a magnitude of \<open>1e99\<close> or more, the radius itself
  otherwise. And what a reader gets for a surface: the placeholder for a redacted one,
  the surface with its radius so changed for a public or an encrypted one.
\<close>

definition parsed_back :: "pyfloat \<Rightarrow> pyfloat" where
  "parsed_back r =
     (if feq r PosInf \<or> feq r NegInf \<or> fge (fabs r) INFINITY_SENTINEL then PosInf else r)"

definition read_back :: "Surface \<Rightarrow> Surface" where
  "read_back s =
     (if visibility s = REDACTED then withheld (surface_number s)
      else s\<lparr>radius := parsed_back (radius s)\<rparr>)"

text \<open>
  The list that \<open>decrypt_payload_selective\<close> returns when the payload holds the three
  groups as they were written: the three groups as read back, one after the other,
  sorted by \<open>surface_number\<close>.
\<close>

definition reassembled :: "SurfaceGroup \<Rightarrow> Surface list" where
  "reassembled g = sort_key surface_number
     (map read_back (get_public_surfaces g) @ map read_back (get_encrypted_surfaces g)
      @ map read_back (get_redacted_surfaces g))"

text \<open>An outcome that is a \<open>JSONDecodeError\<close> or a \<open>UnicodeDecodeError\<close>.\<close>

definition json_failure :: "error + 'a \<Rightarrow> bool" where
  "json_failure r = (case r of Inl e \<Rightarrow> is_json_error e | Inr x \<Rightarrow> False)"

text \<open>
  Modelled from the spec: where the payload section of a container starts, by the layout
  \<open>magic || u32LE(len(header_bytes)) || header_bytes || payload_bytes\<close> of the spec, as a
  reader finds it: after the magic, the four length bytes and as many header bytes as
  they say.
\<close>

definition payload_offset :: "('sk, 'pk, 'r, 'h) env \<Rightarrow> string \<Rightarrow> nat" where
  "payload_offset E c =
     length (OBB_MAGIC E) + 4 + le32 (take 4 (drop (length (OBB_MAGIC E)) c))"

section \<open>A small instance of the collaborators\<close>

text \<open>\<open>payload[k]\<close> on a payload dictionary.\<close>

definition jget :: "json \<Rightarrow> string \<Rightarrow> json option" where
  "jget j k = (case j of JDict d \<Rightarrow> map_of d k | _ \<Rightarrow> None)"

text \<open>
  A concrete group of three surfaces, one of each visibility, a metadata record, and
  an environment whose functions can be evaluated: keys are numbers (a public key
  matches the private key of the same number), a ciphertext is the plaintext behind a
  byte naming the recipient key, a signature is the data behind a byte naming the
  signer, the header bytes are the signature, and the JSON text of the two
  dictionaries the group gives rise to is a one-letter name. \<open>float\<close> knows the string
  \<open>'-inf'\<close> and the integers that a double holds exactly.
\<close>

definition demo_public :: Surface where
  "demo_public = \<lparr>surface_number = 0, surface_type = STANDARD, radius = PosInf,
     thickness = Fin 5, semi_diameter = Fin 12, conic = Fin 0, material = Some ''N-BK7'',
     aspheric_coeffs = None, decenter_x = Fin 0, decenter_y = Fin 0, tilt_x = Fin 0,
     tilt_y = Fin 0, visibility = PUBLIC\<rparr>"

definition demo_secret :: Surface where
  "demo_secret = \<lparr>surface_number = 1, surface_type = EVENASPH, radius = Fin 25,
     thickness = Fin 3, semi_diameter = Fin 12, conic = Fin (- 1 / 2), material = None,
     aspheric_coeffs = Some [(''A4'', Fin (1 / 100000))], decenter_x = Fin 0,
     decenter_y = Fin 0, tilt_x = Fin 0, tilt_y = Fin 0, visibility = ENCRYPTED\<rparr>"

definition demo_hidden :: Surface where
  "demo_hidden = \<lparr>surface_number = 2, surface_type = STANDARD, radius = Fin 40,
     thickness = Fin 10, semi_diameter = Fin 12, conic = Fin 0, material = None,
     aspheric_coeffs = None, decenter_x = Fin 0, decenter_y = Fin 0, tilt_x = Fin 0,
     tilt_y = Fin 0, visibility = REDACTED\<rparr>"

definition demo_group :: SurfaceGroup where
  "demo_group = \<lparr>surfaces = [demo_public, demo_secret, demo_hidden], stop_surface = Some 1,
     wavelengths_nm = [Fin 550], primary_wavelength_index = 0, field_type = Angle,
     max_field = Fin 0\<rparr>"

definition demo_open_group :: SurfaceGroup where
  "demo_open_group = \<lparr>surfaces = [demo_public, demo_hidden], stop_surface = None,
     wavelengths_nm = [Fin 550], primary_wavelength_index = 0, field_type = Angle,
     max_field = Fin 0\<rparr>"

definition demo_plain :: Surface where
  "demo_plain = \<lparr>surface_number = 7, surface_type = STANDARD, radius = PosInf,
     thickness = Fin 0, semi_diameter = Fin 0, conic = Fin 0, material = None,
     aspheric_coeffs = None, decenter_x = Fin 0, decenter_y = Fin 0, tilt_x = Fin 0,
     tilt_y = Fin 0, visibility = PUBLIC\<rparr>"

definition demo_plain_group :: SurfaceGroup where
  "demo_plain_group = \<lparr>surfaces = [demo_plain, demo_secret, demo_hidden],
     stop_surface = None, wavelengths_nm = [Fin 550], primary_wavelength_index = 0,
     field_type = Angle, max_field = Fin 0\<rparr>"

definition demo_withheld :: Surface where
  "demo_withheld = \<lparr>surface_number = 2, surface_type = STANDARD, radius = PosInf,
     thickness = Fin 0, semi_diameter = Fin 0, conic = Fin 0, material = None,
     aspheric_coeffs = None, decenter_x = Fin 0, decenter_y = Fin 0, tilt_x = Fin 0,
     tilt_y = Fin 0, visibility = REDACTED\<rparr>"

definition demo_metadata :: OBBMetadata where
  "demo_metadata = \<lparr>version = ''1.0'', vendor_id = ''acme'', name = ''lens'',
     efl_mm = Fin 50, na = Fin (1 / 4), diameter_mm = Fin 25,
     spectral_range_nm = (Fin 400, Fin 700), num_surfaces = 3, created_at = None,
     signature = [], description = None, part_number = None\<rparr>"

definition demo_payload :: json where
  "demo_payload =
     JDict (payload_base demo_group @ [(''encrypted_surfaces_data'', JStr ''2E'')])"

definition demo_dumps :: "json \<Rightarrow> string" where
  "demo_dumps v =
     (if v = encrypted_data demo_group then ''E''
      else if v = demo_payload then ''S''
      else ''X'')"

definition demo_loads :: "string \<Rightarrow> error + json" where
  "demo_loads b =
     (if b = ''E'' then Inr (encrypted_data demo_group)
      else if b = ''S'' then Inr demo_payload
      else Inl JSONDecodeError)"

definition demo_key_byte :: "nat \<Rightarrow> char" where
  "demo_key_byte k = ''0123456789'' ! (k mod 10)"

definition demo_decrypt :: "string \<Rightarrow> nat \<Rightarrow> nat \<Rightarrow> error + string" where
  "demo_decrypt c eph sk =
     (case c of
        [] \<Rightarrow> Inl DecryptionError
      | k # pt \<Rightarrow> (if k = demo_key_byte sk then Inr pt else Inl DecryptionError))"

definition demo_env :: "(nat, nat, nat, OBBMetadata \<times> nat) env" where
  "demo_env = \<lparr>
     OBB_MAGIC = ''OBB1'',
     py_float = (\<lambda>s. if s = ''-inf'' then Some NegInf else None),
     py_float_int = (\<lambda>n. if \<bar>n\<bar> \<le> 2 ^ 53 then Some (Fin (of_int n)) else None),
     lax_float_str = (\<lambda>s. None),
     lax_int_str = (\<lambda>s. None),
     py_str = (\<lambda>v. case v of JInt n \<Rightarrow> [demo_key_byte (nat n)] | _ \<Rightarrow> ''?''),
     json_dumps = demo_dumps,
     json_loads_utf8 = demo_loads,
     json_loads_bytes = demo_loads,
     b64encode = (\<lambda>b. b),
     b64decode = (\<lambda>s. Inr s),
     model_dump_json = (\<lambda>g. ''G''),
     model_validate_json = (\<lambda>b. if b = ''G'' then Inr demo_group else Inl ValidationError),
     generate_ephemeral_keypair = (\<lambda>r. ((r, r), Suc r)),
     encrypt = (\<lambda>pt pk r. ((demo_key_byte pk # pt, r), Suc r)),
     decrypt = demo_decrypt,
     sign = (\<lambda>d sk r. (demo_key_byte sk # d, r)),
     verify = (\<lambda>d sg pk. Inr (sg = demo_key_byte pk # d)),
     build_header = (\<lambda>md eph. (md, eph)),
     serialize_header = (\<lambda>h. signature (fst h)),
     deserialize_header =
       (\<lambda>b. Inr (demo_metadata\<lparr>signature := b, created_at := Some (Timestamp 0)\<rparr>, 0)),
     extract_metadata = (\<lambda>h. Inr (fst h)),
     extract_ephemeral_key = (\<lambda>h. Inr (snd h))\<rparr>"

definition demo_fs :: filesystem where
  "demo_fs = \<lparr>files = (\<lambda>p. if p = ''bad.obb'' then Inr (File ''NOT_OBB_MAGIC'')
                               else if p = ''locked.obb'' then Inr (Unreadable (OSError 13))
                               else if p = ''good.obb''
                                 then Inr (File (''OBB1'' @ u32le 3 @ ''12G'' @ ''2G''))
                               else if p = ''forged.obb''
                                 then Inr (File (''OBB1'' @ u32le 3 @ ''12G'' @ ''2H''))
                               else if p = ''json.obb''
                                 then Inr (File (''OBB1'' @ u32le 2 @ ''1E'' @ ''E''))
                               else Inl (OSError 2)),
              write_fault = (\<lambda>p. None)\<rparr>"

text \<open>The metadata as the writer stamps it, and the filesystem after the write.\<close>

definition demo_stamped :: OBBMetadata where
  "demo_stamped = demo_metadata\<lparr>signature := ''1S'', created_at := Some (Timestamp 0)\<rparr>"

definition demo_written :: filesystem where
  "demo_written = fst (OBBWriter_write_selective demo_env demo_fs ''out.obb'' demo_group
     demo_metadata 1 2 (Timestamp 0) (0, []))"

text \<open>
  The demo group with the radius of its public surface \<open>-\<infinity>\<close>, as
  \<open>Surface(surface_number=0, radius='-inf', thickness=5.0, semi_diameter=12.0,
  material='N-BK7')\<close> builds it; the payload dictionary of that group; the environment with
  the JSON text of that dictionary named \<open>N\<close>; and the filesystem after the group is
  written.
\<close>

definition demo_neg :: Surface where
  "demo_neg = demo_public\<lparr>radius := NegInf\<rparr>"

definition demo_neg_kwargs :: json where
  "demo_neg_kwargs = JDict [(''surface_number'', JInt 0), (''radius'', JStr ''-inf''),
     (''thickness'', JFloat (Fin 5)), (''semi_diameter'', JFloat (Fin 12)),
     (''material'', JStr ''N-BK7'')]"

definition demo_neg_group :: SurfaceGroup where
  "demo_neg_group = demo_group\<lparr>surfaces := [demo_neg, demo_secret, demo_hidden]\<rparr>"

definition demo_neg_payload :: json where
  "demo_neg_payload =
     JDict (payload_base demo_neg_group @ [(''encrypted_surfaces_data'', JStr ''2E'')])"

definition demo_neg_env :: "(nat, nat, nat, OBBMetadata \<times> nat) env" where
  "demo_neg_env = demo_env\<lparr>
     json_dumps := (\<lambda>v. if v = demo_neg_payload then ''N'' else demo_dumps v),
     json_loads_utf8 := (\<lambda>b. if b = ''N'' then Inr demo_neg_payload else demo_loads b)\<rparr>"

definition demo_neg_stamped :: OBBMetadata where
  "demo_neg_stamped = demo_metadata\<lparr>signature := ''1N'', created_at := Some (Timestamp 0)\<rparr>"

definition demo_neg_written :: filesystem where
  "demo_neg_written = fst (OBBWriter_write_selective demo_neg_env demo_fs ''neg.obb''
     demo_neg_group demo_metadata 1 2 (Timestamp 0) (0, []))"

text \<open>The written file with its last byte, the one payload byte, changed.\<close>

definition demo_tampered :: filesystem where
  "demo_tampered = demo_written\<lparr>files := (files demo_written)(''out.obb'' :=
     Inr (File ((''OBB1'' @ u32le 2 @ ''1S'' @ ''S'')[10 := CHR ''T''])))\<rparr>"

section \<open>Auxiliary facts\<close>

lemma bindE_InrE:
  assumes "bindE m f = Inr y"
  obtains x where "m = Inr x" "f x = Inr y"
  using assms by (cases m) (auto simp: bindE_def)

lemma Surface_validate_visibility:
  assumes "Surface_validate E (JDict d) = Inr s"
  shows "field d ''visibility'' PUBLIC v_visibility = Inr (visibility s)"
  using assms unfolding Surface_validate_def
  by (simp split: if_splits) (elim bindE_InrE, auto)

lemma payload_public:
  "jget (fst (fst (encrypt_payload_selective E g ppk w))) ''public_surfaces''
     = Some (JList (map Surface_dump (get_public_surfaces g)))"
  by (simp add: encrypt_payload_selective_def Let_def jget_def payload_base_def)

lemma payload_redacted:
  "jget (fst (fst (encrypt_payload_selective E g ppk w))) ''redacted_surface_indices''
     = Some (JList (map (\<lambda>s. JInt (surface_number s)) (get_redacted_surfaces g)))"
  by (simp add: encrypt_payload_selective_def Let_def jget_def payload_base_def)

lemma encrypt_events:
  "snd (snd (encrypt_payload_selective E g ppk (r, t))) =
     t @ (if get_encrypted_surfaces g \<noteq> [] then [EvEncrypt (json_dumps E (encrypted_data g))]
          else [EvGenKeypair])"
  by (simp add: encrypt_payload_selective_def Let_def OBBEncryptor_encrypt_def
      ecdh_generate_ephemeral_keypair_def)

lemma bindT_liftT: "bindT (liftT m) f = (case m of Inl e \<Rightarrow> ([], Inl e) | Inr x \<Rightarrow> f x)"
  by (cases m) (simp_all add: bindT_def liftT_def)

lemma check_signature_True:
  "bindT (check_signature E True p sg k) f =
     (case verify E p sg k of
        Inl e \<Rightarrow> ([EvVerify p sg], Inl e)
      | Inr b \<Rightarrow> (if b then (EvVerify p sg # fst (f ()), snd (f ()))
                 else ([EvVerify p sg], Inl InvalidSignatureError)))"
  by (cases "verify E p sg k")
     (simp_all add: check_signature_def verify_payload_signature_def OBBSigner_verify_def
       bindT_def liftT_def)

lemma guarded_True: "guarded E vpk True t"
  by (induction t) (simp_all split: event.splits, (case_tac a; simp)+)

lemma verified_read_cases:
  "verified_read E vpk rc rest =
   (case rc of Inl e \<Rightarrow> ([], Inl e) | Inr c \<Rightarrow>
     (case extract_metadata E (fst c) of Inl e \<Rightarrow> ([], Inl e) | Inr md \<Rightarrow>
      (case extract_ephemeral_key E (fst c) of Inl e \<Rightarrow> ([], Inl e) | Inr eph \<Rightarrow>
        (case verify E (snd c) (signature md) vpk of
            Inl e \<Rightarrow> ([EvVerify (snd c) (signature md)], Inl e)
          | Inr b \<Rightarrow> if b then (EvVerify (snd c) (signature md) # fst (rest c md eph),
                               snd (rest c md eph))
                     else ([EvVerify (snd c) (signature md)], Inl InvalidSignatureError)))))"
  by (simp add: verified_read_def bindT_liftT check_signature_True split: sum.splits)

lemma verified_read_guarded: "guarded E vpk False (fst (verified_read E vpk rc rest))"
  by (simp add: verified_read_cases guarded_True split: sum.splits)

lemma verified_read_fail_closed:
  assumes "rc = Inr (h, payload)" "extract_metadata E h = Inr md"
    "extract_ephemeral_key E h = Inr eph" "verify E payload (signature md) vpk = Inr False"
  shows "verified_read E vpk rc rest = ([EvVerify payload (signature md)], Inl InvalidSignatureError)"
  using assms by (simp add: verified_read_cases)

lemma verified_read_decrypt:
  assumes "EvDecrypt c \<in> set (fst (verified_read E vpk rc rest))"
  shows "\<exists>h payload md. rc = Inr (h, payload) \<and> extract_metadata E h = Inr md
           \<and> verify E payload (signature md) vpk = Inr True
           \<and> hd (fst (verified_read E vpk rc rest)) = EvVerify payload (signature md)"
  using assms by (auto simp: verified_read_cases split: sum.splits if_splits)

lemma readers_verified:
  "read E fs path psk vpk True = verified_read E vpk (read_container E fs path)
     (\<lambda>c md eph. bindT (catchT
              (bindT (liftT (json_loads_utf8 E (snd c))) (\<lambda>payload_dict.
                 if is_selective payload_dict then
                   decrypt_payload_selective E payload_dict eph psk
                 else decrypt_payload E (snd c) eph psk))
              is_json_error
              (decrypt_payload E (snd c) eph psk))
       (\<lambda>surface_group. liftT (Inr (md, surface_group))))"
  "read_and_decrypt E fs path psk vpk True = verified_read E vpk (read_container E fs path)
     (\<lambda>c md eph. bindT (decrypt_payload E (snd c) eph psk)
       (\<lambda>surface_group. liftT (Inr (md, surface_group))))"
  "read_and_decrypt_selective E fs path psk vpk True =
     verified_read E vpk (read_container E fs path)
     (\<lambda>c md eph. bindT (liftT (json_loads_utf8 E (snd c))) (\<lambda>payload_dict.
        bindT (decrypt_payload_selective E payload_dict eph psk)
       (\<lambda>surface_group. liftT (Inr (md, surface_group)))))"
  by (simp_all add: read_def read_and_decrypt_def read_and_decrypt_selective_def verified_read_def)

lemma demo_container_good:
  "read_container demo_env demo_fs ''good.obb''
     = Inr ((demo_metadata\<lparr>signature := ''12G'', created_at := Some (Timestamp 0)\<rparr>, 0), ''2G'')"
  by (simp add: read_container_def open_rb_def read_and_verify_magic_def
      read_length_prefixed_def read_rest_def bindE_def demo_env_def demo_fs_def
      u32le_def le32_def)

lemma demo_container_forged:
  "read_container demo_env demo_fs ''forged.obb''
     = Inr ((demo_metadata\<lparr>signature := ''12G'', created_at := Some (Timestamp 0)\<rparr>, 0), ''2H'')"
  by (simp add: read_container_def open_rb_def read_and_verify_magic_def
      read_length_prefixed_def read_rest_def bindE_def demo_env_def demo_fs_def
      u32le_def le32_def)

lemma demo_read_good:
  "read demo_env demo_fs ''good.obb'' 2 1 True
     = ([EvVerify ''2G'' ''12G'', EvDecrypt ''2G''],
        Inr (demo_metadata\<lparr>signature := ''12G'', created_at := Some (Timestamp 0)\<rparr>, demo_group))"
  unfolding read_def demo_container_good bindT_liftT
  by (simp add: bindT_liftT check_signature_def verify_payload_signature_def OBBSigner_verify_def
      bindT_def liftT_def catchT_def is_json_error_def decrypt_payload_def
      OBBEncryptor_decrypt_def demo_env_def demo_loads_def demo_decrypt_def demo_key_byte_def)

lemma v_coeffs_dump: "v_coeffs E (map (\<lambda>(k, v). (k, JFloat v)) kvs) = Inr kvs"
  by (induction kvs) (auto simp: bindE_def)

lemma radius_rt: "v_radius E (JFloat (serialize_radius r)) = Inr (parsed_back r)"
  by (cases r) (auto simp: v_radius_def serialize_radius_def parsed_back_def
      INFINITY_SENTINEL_def)

lemma parsed_back_exact:
  "r = PosInf \<or> \<not> fge (fabs r) INFINITY_SENTINEL \<Longrightarrow> parsed_back r = r"
  by (cases r) (auto simp: parsed_back_def INFINITY_SENTINEL_def)

lemma Surface_roundtrip:
  assumes "Surface_ok s"
  shows "Surface_validate E (Surface_dump s) = Inr (s\<lparr>radius := parsed_back (radius s)\<rparr>)"
proof -
  have r: "v_radius E (JFloat (serialize_radius (radius s))) = Inr (parsed_back (radius s))"
    by (rule radius_rt)
  have st: "v_surface_type (JStr (SurfaceType_value (surface_type s))) = Inr (surface_type s)"
    by (cases "surface_type s") (simp_all add: v_surface_type_def)
  have vi: "v_visibility (JStr (SurfaceVisibility_value (visibility s))) = Inr (visibility s)"
    by (cases "visibility s") (simp_all add: v_visibility_def)
  have ma: "v_opt_str (case material s of None \<Rightarrow> JNull | Some m \<Rightarrow> JStr m) = Inr (material s)"
    by (cases "material s") simp_all
  have ac: "v_opt_coeffs E (case aspheric_coeffs s of None \<Rightarrow> JNull
              | Some kvs \<Rightarrow> JDict (map (\<lambda>(k, v). (k, JFloat v)) kvs)) = Inr (aspheric_coeffs s)"
    by (cases "aspheric_coeffs s") (simp_all add: v_coeffs_dump bindE_def)
  have sn: "v_int_ge0 E (JInt (surface_number s)) = Inr (surface_number s)"
    using assms by (simp add: v_int_ge0_def bindE_def Surface_ok_def)
  have sd: "v_float_ge0 E (JFloat (semi_diameter s)) = Inr (semi_diameter s)"
    using assms by (simp add: v_float_ge0_def bindE_def Surface_ok_def)
  show ?thesis
    unfolding Surface_validate_def Surface_dump_def
    by (simp add: field_def bindE_def r st vi ma ac sn sd)
qed

lemma mapE_validate_dump:
  assumes "list_all Surface_ok xs" and "list_all (\<lambda>s. visibility s \<noteq> REDACTED) xs"
  shows "mapE (Surface_validate E) (map Surface_dump xs) = Inr (map read_back xs)"
  using assms by (induction xs) (simp_all add: bindE_def Surface_roundtrip read_back_def)

lemma placeholder_int:
  assumes "0 \<le> n"
  shows "redacted_placeholder E (JInt n) = Inr (withheld n)"
  using assms
  by (simp add: redacted_placeholder_def placeholder_kwargs_def Surface_validate_def field_def
      bindE_def v_int_ge0_def v_surface_type_def v_visibility_def withheld_def)

lemma mapE_placeholders:
  assumes "list_all Surface_ok xs"
    and "list_all (\<lambda>s. visibility s = REDACTED) xs"
  shows "mapE (redacted_placeholder E) (map (\<lambda>s. JInt (surface_number s)) xs)
           = Inr (map read_back xs)"
  using assms
  by (induction xs) (simp_all add: bindE_def placeholder_int Surface_ok_def read_back_def)

lemma mapE_floats: "mapE (v_float E) (map JFloat xs) = Inr xs"
  by (induction xs) (simp_all add: bindE_def)

lemma SurfaceGroup_init_dump:
  assumes "SurfaceGroup_ok g" "ss \<noteq> []"
  shows "SurfaceGroup_init E ss (JList (map JFloat (wavelengths_nm g)))
           (JInt (primary_wavelength_index g))
           (case stop_surface g of None \<Rightarrow> JNull | Some n \<Rightarrow> JInt n)
           (JStr (FieldType_value (field_type g))) (JFloat (max_field g))
         = Inr (g\<lparr>surfaces := ss\<rparr>)"
proof -
  have st: "v_stop_surface E (case stop_surface g of None \<Rightarrow> JNull | Some n \<Rightarrow> JInt n)
              = Inr (stop_surface g)"
    using assms(1)
    by (cases "stop_surface g") (simp_all add: v_stop_surface_def v_int_ge0_def bindE_def
        SurfaceGroup_ok_def)
  have ft: "v_field_type (JStr (FieldType_value (field_type g))) = Inr (field_type g)"
    by (cases "field_type g") (simp_all add: v_field_type_def)
  show ?thesis
    using assms
    by (simp add: SurfaceGroup_init_def bindE_def st ft v_wavelengths_def mapE_floats
        v_int_ge0_def v_float_ge0_def SurfaceGroup_ok_def)
qed

lemma read_back_number: "surface_number (read_back s) = surface_number s"
  by (simp add: read_back_def withheld_def)

lemma read_back_exact:
  assumes "radius s = PosInf \<or> \<not> fge (fabs (radius s)) INFINITY_SENTINEL"
  shows "read_back s = spec_view s"
  using parsed_back_exact [OF assms] by (simp add: read_back_def spec_view_def)

lemma mset_three_groups:
  "mset (filter (\<lambda>s. visibility s = PUBLIC) xs) + mset (filter (\<lambda>s. visibility s = ENCRYPTED) xs)
     + mset (filter (\<lambda>s. visibility s = REDACTED) xs) = mset xs"
proof (induction xs)
  case Nil
  show ?case by simp
next
  case (Cons x xs)
  then show ?case by (cases "visibility x") simp_all
qed

lemma mset_reassembled: "mset (reassembled g) = mset (map read_back (surfaces g))"
proof -
  have "mset (reassembled g) = image_mset read_back
          (mset (get_public_surfaces g) + mset (get_encrypted_surfaces g)
           + mset (get_redacted_surfaces g))"
    by (simp add: reassembled_def)
  also have "\<dots> = image_mset read_back (mset (surfaces g))"
    unfolding get_public_surfaces_def get_encrypted_surfaces_def get_redacted_surfaces_def
      mset_three_groups ..
  finally show ?thesis by simp
qed

lemma sorted_reassembled: "sorted (map surface_number (reassembled g))"
  by (simp add: reassembled_def)

lemma length_reassembled: "length (reassembled g) = length (surfaces g)"
  using mset_reassembled [of g] by (metis length_map size_mset)

lemma reassembled_in_order:
  assumes "sorted_wrt (<) (map surface_number (surfaces g))"
  shows "reassembled g = map read_back (surfaces g)"
proof -
  let ?xs = "map read_back (get_public_surfaces g) @ map read_back (get_encrypted_surfaces g)
             @ map read_back (get_redacted_surfaces g)"
  let ?ys = "map read_back (surfaces g)"
  have nums: "map surface_number ?ys = map surface_number (surfaces g)"
    by (simp add: read_back_number comp_def)
  have m: "mset ?xs = mset ?ys"
    using mset_reassembled [of g] by (simp add: reassembled_def)
  have d: "distinct (map surface_number ?ys)"
    unfolding nums using assms by (simp add: strict_sorted_iff)
  have "set ?xs = set ?ys" using m by (rule mset_eq_setD)
  moreover have "inj_on surface_number (set ?ys)"
    using d unfolding distinct_map by (rule conjunct2)
  ultimately have i: "inj_on surface_number (set ?xs)" by simp
  have s: "sorted (map surface_number ?ys)"
    unfolding nums using assms by (simp add: strict_sorted_iff)
  show ?thesis unfolding reassembled_def
    using m i s by (rule sort_key_inj_key_eq)
qed

lemma decrypt_selective_restores:
  assumes ok: "SurfaceGroup_ok g"
    and blob: "get_encrypted_surfaces g \<noteq> [] \<Longrightarrow>
           B \<noteq> [] \<and> b64decode E B = Inr ct \<and> decrypt E ct eph psk = Inr pt
           \<and> json_loads_bytes E pt = Inr (encrypted_data g)"
    and none: "get_encrypted_surfaces g = [] \<Longrightarrow> B = []"
  shows "snd (decrypt_payload_selective E
            (JDict (payload_base g @ [(''encrypted_surfaces_data'', JStr B)])) eph psk)
         = Inr (g\<lparr>surfaces := reassembled g\<rparr>)"
proof -
  have all: "list_all Surface_ok (surfaces g)" using ok by (simp add: SurfaceGroup_ok_def)
  have p: "list_all Surface_ok (get_public_surfaces g)"
    and e: "list_all Surface_ok (get_encrypted_surfaces g)"
    and r: "list_all Surface_ok (get_redacted_surfaces g)"
    using all by (simp_all add: get_public_surfaces_def get_encrypted_surfaces_def
        get_redacted_surfaces_def list_all_iff)
  have p': "list_all (\<lambda>s. visibility s \<noteq> REDACTED) (get_public_surfaces g)"
    and e': "list_all (\<lambda>s. visibility s \<noteq> REDACTED) (get_encrypted_surfaces g)"
    and r': "list_all (\<lambda>s. visibility s = REDACTED) (get_redacted_surfaces g)"
    by (simp_all add: get_public_surfaces_def get_encrypted_surfaces_def
        get_redacted_surfaces_def list_all_iff)
  have ne: "reassembled g \<noteq> []"
    using ok length_reassembled [of g] by (auto simp: SurfaceGroup_ok_def)
  note init = SurfaceGroup_init_dump [OF ok ne, of E]
  show ?thesis
  proof (cases "get_encrypted_surfaces g = []")
    case True
    with none have "B = []" by simp
    with True show ?thesis
      using init
      by (simp add: decrypt_payload_selective_def payload_base_def dget_def bindT_liftT
          bindE_def mapE_validate_dump [OF p p'] mapE_placeholders [OF r r'] reassembled_def
          liftT_def bindT_def)
  next
    case False
    with blob have b: "B \<noteq> []" "b64decode E B = Inr ct" "decrypt E ct eph psk = Inr pt"
      "json_loads_bytes E pt = Inr (encrypted_data g)" by simp_all
    show ?thesis
      using init
      by (simp add: decrypt_payload_selective_def payload_base_def dget_def bindT_liftT
          bindE_def mapE_validate_dump [OF p p'] mapE_validate_dump [OF e e']
          mapE_placeholders [OF r r'] reassembled_def liftT_def b py_b64decode_def
          OBBEncryptor_decrypt_def bindT_def encrypted_data_def get_surfaces_def)
  qed
qed

lemma length_u32le: "length (u32le n) = 4"
  by (simp add: u32le_def)

lemma le32_u32le:
  assumes "n < 2 ^ 32"
  shows "le32 (u32le n) = n"
proof -
  define a where "a = n div 256"
  define b where "b = a div 256"
  define c where "c = b div 256"
  have n: "n = n mod 256 + 256 * a" unfolding a_def by simp
  have a: "a = a mod 256 + 256 * b" unfolding b_def by simp
  have b: "b = b mod 256 + 256 * c" unfolding c_def by simp
  have c: "c < 256" using assms unfolding c_def b_def a_def by simp
  have d: "n div 65536 = b" "n div 16777216 = c"
    unfolding c_def b_def a_def by (simp_all add: div_mult2_eq [symmetric])
  have "le32 (u32le n) = n mod 256 + 256 * (a mod 256) + 65536 * (b mod 256) + 16777216 * c"
    unfolding le32_def u32le_def using c by (simp add: d a_def [symmetric])
  also have "\<dots> = n" using n a b by linarith
  finally show ?thesis .
qed

lemma take4_u32le: "take 4 (u32le n @ rest) = u32le n"
  by (simp add: u32le_def)

lemma drop4_u32le: "drop 4 (u32le n @ rest) = rest"
  by (simp add: u32le_def)

lemma read_length_prefixed_written:
  assumes "length hb < 2 ^ 32"
  shows "read_length_prefixed (Handle (m @ u32le (length hb) @ hb @ payload) (length m))
         = Inr (hb, Handle (m @ u32le (length hb) @ hb @ payload) (length m + 4 + length hb))"
  using assms
  by (simp add: read_length_prefixed_def bindE_def take4_u32le drop4_u32le le32_u32le
      length_u32le)

lemma read_container_written:
  assumes "files fs path = Inr (File (OBB_MAGIC E @ u32le (length hb) @ hb @ payload))"
    and "length hb < 2 ^ 32"
  shows "read_container E fs path = bindE (deserialize_header E hb) (\<lambda>h. Inr (h, payload))"
proof -
  have "read_container E fs path =
        bindE (read_length_prefixed
                 (Handle (OBB_MAGIC E @ u32le (length hb) @ hb @ payload) (length (OBB_MAGIC E))))
          (\<lambda>hb. bindE (deserialize_header E (fst hb)) (\<lambda>header.
             bindE (read_rest (snd hb)) (\<lambda>p. Inr (header, fst p))))"
    using assms(1)
    by (simp add: read_container_def open_rb_def read_and_verify_magic_def bindE_def)
  also have "\<dots> = bindE (deserialize_header E hb) (\<lambda>h. Inr (h, payload))"
    unfolding read_length_prefixed_written [OF assms(2)]
    by (simp add: bindE_def read_rest_def length_u32le split: sum.splits)
  finally show ?thesis .
qed

lemma snd_bindT: "snd (bindT m f) = (case snd m of Inl e \<Rightarrow> Inl e | Inr x \<Rightarrow> snd (f x))"
  by (simp add: bindT_def split: sum.splits)

lemma snd_liftT: "snd (liftT m) = m"
  by (simp add: liftT_def)

lemma snd_catchT_Inr: "snd m = Inr x \<Longrightarrow> snd (catchT m p h) = Inr x"
  by (simp add: catchT_def)

lemma snd_check_signature:
  assumes "verify E p sg k = Inr True"
  shows "snd (check_signature E v p sg k) = Inr ()"
  using assms
  by (simp add: check_signature_def verify_payload_signature_def OBBSigner_verify_def
      bindT_def liftT_def)

lemma selective_payload_shape:
  "fst (fst (encrypt_payload_selective E g ppk w)) =
     JDict (payload_base g @ [(''encrypted_surfaces_data'',
        JStr (if get_encrypted_surfaces g \<noteq> []
              then b64encode E (fst (fst (encrypt E (json_dumps E (encrypted_data g)) ppk (fst w))))
              else []))])"
  "snd (fst (encrypt_payload_selective E g ppk w)) =
     (if get_encrypted_surfaces g \<noteq> []
      then snd (fst (encrypt E (json_dumps E (encrypted_data g)) ppk (fst w)))
      else snd (fst (generate_ephemeral_keypair E (fst w))))"
  by (simp_all add: encrypt_payload_selective_def Let_def OBBEncryptor_encrypt_def
      ecdh_generate_ephemeral_keypair_def)

lemma is_selective_payload: "is_selective (JDict (payload_base g @ kvs))"
  by (simp add: is_selective_def payload_base_def)

lemma write_selective_file:
  assumes "OBBWriter_write_selective E fs path g md vsk ppk now w = (fs', md', None, w')"
    and "encrypt_payload_selective E g ppk w = ((pd, eph), ws)"
  shows "files fs' path = Inr (File (OBB_MAGIC E
            @ u32le (length (serialize_header E (build_header E md' eph)))
            @ serialize_header E (build_header E md' eph) @ json_dumps E pd))"
    and "length (serialize_header E (build_header E md' eph)) < 2 ^ 32"
    and "md' = md\<lparr>signature := fst (sign E (json_dumps E pd) vsk (fst ws)),
                   created_at := Some now\<rparr>"
  using assms
  by (auto simp: OBBWriter_write_selective_def write_selective_to_stream_def Let_def
      write_magic_def write_length_prefixed_def write_bytes_def sign_payload_def
      OBBSigner_sign_def split: option.splits if_splits)

lemma selective_read_back:
  assumes wf: "SurfaceGroup_ok g"
    and wr: "OBBWriter_write_selective E fs path g md vsk ppk now w = (fs', md', None, w')"
    and enc: "encrypt_payload_selective E g ppk w = ((pd, eph), ws)"
    and blob: "get_encrypted_surfaces g \<noteq> [] \<Longrightarrow>
         encrypt E (json_dumps E (encrypted_data g)) ppk (fst w) = ((ct, eph), rest)
         \<and> b64encode E ct \<noteq> [] \<and> b64decode E (b64encode E ct) = Inr ct
         \<and> decrypt E ct eph psk = Inr (json_dumps E (encrypted_data g))
         \<and> json_loads_bytes E (json_dumps E (encrypted_data g)) = Inr (encrypted_data g)"
    and js: "json_loads_utf8 E (json_dumps E pd) = Inr pd"
    and sg: "verify E (json_dumps E pd) (signature md') vpk = Inr True"
    and hd: "deserialize_header E (serialize_header E (build_header E md' eph)) = Inr h"
    and xm: "extract_metadata E h = Inr md'"
    and xe: "extract_ephemeral_key E h = Inr eph"
  shows "snd (read E fs' path psk vpk v) = Inr (md', g\<lparr>surfaces := reassembled g\<rparr>)"
    and "snd (read_and_decrypt_selective E fs' path psk vpk v)
           = Inr (md', g\<lparr>surfaces := reassembled g\<rparr>)"
proof -
  note written = write_selective_file [OF wr enc]
  have rc: "read_container E fs' path = Inr (h, json_dumps E pd)"
    using read_container_written [OF written(1) written(2)] hd by (simp add: bindE_def)
  define B where "B = (if get_encrypted_surfaces g \<noteq> []
              then b64encode E (fst (fst (encrypt E (json_dumps E (encrypted_data g)) ppk (fst w))))
              else [])"
  have pd: "pd = JDict (payload_base g @ [(''encrypted_surfaces_data'', JStr B)])"
    using selective_payload_shape(1) [of E g ppk w] enc by (simp add: B_def)
  have dec: "snd (decrypt_payload_selective E pd eph psk) = Inr (g\<lparr>surfaces := reassembled g\<rparr>)"
    unfolding pd
  proof (rule decrypt_selective_restores [OF wf])
    assume "get_encrypted_surfaces g \<noteq> []"
    with blob show "B \<noteq> [] \<and> b64decode E B = Inr ct \<and> decrypt E ct eph psk
         = Inr (json_dumps E (encrypted_data g))
         \<and> json_loads_bytes E (json_dumps E (encrypted_data g)) = Inr (encrypted_data g)"
      by (simp add: B_def)
  next
    assume "get_encrypted_surfaces g = []"
    then show "B = []" by (simp add: B_def)
  qed
  have sel: "is_selective pd" unfolding pd by (rule is_selective_payload)
  have body: "snd (bindT (liftT (json_loads_utf8 E (json_dumps E pd))) (\<lambda>payload_dict.
                 if is_selective payload_dict then
                   decrypt_payload_selective E payload_dict eph psk
                 else X))
              = Inr (g\<lparr>surfaces := reassembled g\<rparr>)" for X
    by (simp add: js bindT_liftT sel dec)
  show "snd (read E fs' path psk vpk v) = Inr (md', g\<lparr>surfaces := reassembled g\<rparr>)"
    unfolding read_def
    by (simp add: snd_bindT snd_liftT rc xm xe snd_check_signature [OF sg]
        snd_catchT_Inr [OF body])
  show "snd (read_and_decrypt_selective E fs' path psk vpk v)
           = Inr (md', g\<lparr>surfaces := reassembled g\<rparr>)"
    unfolding read_and_decrypt_selective_def
    by (simp add: snd_bindT snd_liftT rc xm xe snd_check_signature [OF sg] js dec)
qed

lemma demo_group_ok: "SurfaceGroup_ok demo_group"
  by (simp add: SurfaceGroup_ok_def Surface_ok_def demo_group_def demo_public_def
      demo_secret_def demo_hidden_def)

lemma demo_groups:
  "get_public_surfaces demo_group = [demo_public]"
  "get_encrypted_surfaces demo_group = [demo_secret]"
  "get_redacted_surfaces demo_group = [demo_hidden]"
  by (simp_all add: get_public_surfaces_def get_encrypted_surfaces_def
      get_redacted_surfaces_def demo_group_def demo_public_def demo_secret_def demo_hidden_def)

lemma demo_dumps_values:
  "demo_dumps (encrypted_data demo_group) = ''E''"
  "demo_dumps demo_payload = ''S''"
  by (simp_all add: demo_dumps_def demo_payload_def encrypted_data_def payload_base_def)

lemma demo_encrypt_selective:
  "encrypt_payload_selective demo_env demo_group 2 (0, []) =
     ((demo_payload, 0), (1, [EvEncrypt ''E'']))"
  unfolding encrypt_payload_selective_def demo_groups
  by (simp add: Let_def OBBEncryptor_encrypt_def demo_env_def demo_dumps_values
      demo_key_byte_def demo_payload_def)

lemma demo_write_selective:
  "OBBWriter_write_selective demo_env demo_fs ''out.obb'' demo_group demo_metadata 1 2
     (Timestamp 0) (0, []) =
   (demo_fs\<lparr>files := (files demo_fs)(''out.obb'' :=
        Inr (File (''OBB1'' @ u32le (length ''1S'') @ ''1S'' @ ''S'')))\<rparr>,
    demo_stamped, None, (1, [EvEncrypt ''E'', EvSign ''S'']))"
  unfolding OBBWriter_write_selective_def write_selective_to_stream_def demo_encrypt_selective
  by (simp add: Let_def demo_fs_def demo_env_def demo_dumps_values sign_payload_def
      OBBSigner_sign_def demo_key_byte_def write_magic_def write_length_prefixed_def
      write_bytes_def demo_stamped_def)

lemma demo_reassembled: "reassembled demo_group = [demo_public, demo_secret, demo_withheld]"
  unfolding reassembled_def demo_groups
  by (simp add: demo_public_def demo_secret_def demo_hidden_def demo_withheld_def withheld_def
      read_back_def parsed_back_def INFINITY_SENTINEL_def)

lemma demo_views:
  "map read_back (surfaces demo_group) = [demo_public, demo_secret, demo_withheld]"
  "map spec_view (surfaces demo_group) = [demo_public, demo_secret, demo_withheld]"
  by (simp_all add: demo_group_def demo_public_def demo_secret_def demo_hidden_def
      demo_withheld_def withheld_def read_back_def spec_view_def parsed_back_def
      INFINITY_SENTINEL_def)

lemma demo_neg_validated: "Surface_validate demo_neg_env demo_neg_kwargs = Inr demo_neg"
  by (simp add: Surface_validate_def demo_neg_kwargs_def field_def bindE_def v_radius_def
      v_int_ge0_def v_float_ge0_def demo_neg_env_def demo_env_def demo_neg_def demo_public_def)

lemma demo_neg_group_ok: "SurfaceGroup_ok demo_neg_group"
  by (simp add: SurfaceGroup_ok_def Surface_ok_def demo_neg_group_def demo_group_def
      demo_neg_def demo_public_def demo_secret_def demo_hidden_def)

lemma demo_neg_groups:
  "get_public_surfaces demo_neg_group = [demo_neg]"
  "get_encrypted_surfaces demo_neg_group = [demo_secret]"
  "get_redacted_surfaces demo_neg_group = [demo_hidden]"
  by (simp_all add: get_public_surfaces_def get_encrypted_surfaces_def
      get_redacted_surfaces_def demo_neg_group_def demo_neg_def demo_public_def
      demo_secret_def demo_hidden_def)

lemma demo_neg_encrypted_data: "encrypted_data demo_neg_group = encrypted_data demo_group"
  by (simp add: encrypted_data_def demo_neg_groups demo_groups)

lemma demo_neg_env_fields:
  "OBB_MAGIC demo_neg_env = OBB_MAGIC demo_env"
  "json_loads_bytes demo_neg_env = json_loads_bytes demo_env"
  "b64encode demo_neg_env = b64encode demo_env"
  "b64decode demo_neg_env = b64decode demo_env"
  "encrypt demo_neg_env = encrypt demo_env"
  "decrypt demo_neg_env = decrypt demo_env"
  "sign demo_neg_env = sign demo_env"
  "verify demo_neg_env = verify demo_env"
  "build_header demo_neg_env = build_header demo_env"
  "serialize_header demo_neg_env = serialize_header demo_env"
  "deserialize_header demo_neg_env = deserialize_header demo_env"
  "extract_metadata demo_neg_env = extract_metadata demo_env"
  "extract_ephemeral_key demo_neg_env = extract_ephemeral_key demo_env"
  by (simp_all add: demo_neg_env_def)

lemma demo_neg_json:
  "json_dumps demo_neg_env (encrypted_data demo_group) = ''E''"
  "json_dumps demo_neg_env demo_neg_payload = ''N''"
  "json_loads_utf8 demo_neg_env ''N'' = Inr demo_neg_payload"
proof -
  have "encrypted_data demo_group \<noteq> demo_neg_payload"
    by (simp add: encrypted_data_def demo_neg_payload_def payload_base_def)
  then show "json_dumps demo_neg_env (encrypted_data demo_group) = ''E''"
    by (simp add: demo_neg_env_def demo_dumps_values)
  show "json_dumps demo_neg_env demo_neg_payload = ''N''"
    by (simp add: demo_neg_env_def)
  show "json_loads_utf8 demo_neg_env ''N'' = Inr demo_neg_payload"
    by (simp add: demo_neg_env_def)
qed

lemma demo_neg_encrypt:
  "encrypt_payload_selective demo_neg_env demo_neg_group 2 (0, []) =
     ((demo_neg_payload, 0), (1, [EvEncrypt ''E'']))"
  unfolding encrypt_payload_selective_def demo_neg_groups demo_neg_encrypted_data
  by (simp add: Let_def OBBEncryptor_encrypt_def demo_neg_json demo_neg_env_fields
      demo_env_def demo_key_byte_def demo_neg_payload_def)

lemma demo_neg_write:
  "OBBWriter_write_selective demo_neg_env demo_fs ''neg.obb'' demo_neg_group demo_metadata 1 2
     (Timestamp 0) (0, []) =
   (demo_fs\<lparr>files := (files demo_fs)(''neg.obb'' :=
        Inr (File (''OBB1'' @ u32le (length ''1N'') @ ''1N'' @ ''N'')))\<rparr>,
    demo_neg_stamped, None, (1, [EvEncrypt ''E'', EvSign ''N'']))"
  unfolding OBBWriter_write_selective_def write_selective_to_stream_def demo_neg_encrypt
  by (simp add: Let_def demo_fs_def demo_neg_json demo_neg_env_fields demo_env_def
      sign_payload_def OBBSigner_sign_def demo_key_byte_def write_magic_def
      write_length_prefixed_def write_bytes_def demo_neg_stamped_def)

lemma demo_neg_reassembled:
  "reassembled demo_neg_group = [demo_public, demo_secret, demo_withheld]"
  unfolding reassembled_def demo_neg_groups
  by (simp add: demo_neg_def demo_public_def demo_secret_def demo_hidden_def demo_withheld_def
      withheld_def read_back_def parsed_back_def INFINITY_SENTINEL_def)

lemma demo_neg_read:
  "snd (read demo_neg_env demo_neg_written ''neg.obb'' 2 1 True)
     = Inr (demo_neg_stamped,
            demo_neg_group\<lparr>surfaces := [demo_public, demo_secret, demo_withheld]\<rparr>)"
  "snd (read_and_decrypt_selective demo_neg_env demo_neg_written ''neg.obb'' 2 1 True)
     = Inr (demo_neg_stamped,
            demo_neg_group\<lparr>surfaces := [demo_public, demo_secret, demo_withheld]\<rparr>)"
proof -
  have w: "OBBWriter_write_selective demo_neg_env demo_fs ''neg.obb'' demo_neg_group
     demo_metadata 1 2 (Timestamp 0) (0, [])
     = (demo_neg_written, demo_neg_stamped, None, (1, [EvEncrypt ''E'', EvSign ''N'']))"
    unfolding demo_neg_written_def demo_neg_write by simp
  have b: "encrypt demo_neg_env (json_dumps demo_neg_env (encrypted_data demo_neg_group)) 2
              (fst (0, [])) = ((''2E'', 0), 1)
         \<and> b64encode demo_neg_env ''2E'' \<noteq> []
         \<and> b64decode demo_neg_env (b64encode demo_neg_env ''2E'') = Inr ''2E''
         \<and> decrypt demo_neg_env ''2E'' 0 2
             = Inr (json_dumps demo_neg_env (encrypted_data demo_neg_group))
         \<and> json_loads_bytes demo_neg_env (json_dumps demo_neg_env (encrypted_data demo_neg_group))
             = Inr (encrypted_data demo_neg_group)"
    unfolding demo_neg_encrypted_data demo_neg_json demo_neg_env_fields
    by (simp add: demo_env_def demo_key_byte_def demo_decrypt_def demo_loads_def)
  have j: "json_loads_utf8 demo_neg_env (json_dumps demo_neg_env demo_neg_payload)
             = Inr demo_neg_payload"
    by (simp add: demo_neg_json)
  have v: "verify demo_neg_env (json_dumps demo_neg_env demo_neg_payload)
             (signature demo_neg_stamped) 1 = Inr True"
    unfolding demo_neg_json demo_neg_env_fields
    by (simp add: demo_env_def demo_neg_stamped_def demo_key_byte_def)
  have h: "deserialize_header demo_neg_env
            (serialize_header demo_neg_env (build_header demo_neg_env demo_neg_stamped 0))
          = Inr (demo_neg_stamped, 0)"
    unfolding demo_neg_env_fields by (simp add: demo_env_def demo_neg_stamped_def)
  have m: "extract_metadata demo_neg_env (demo_neg_stamped, 0) = Inr demo_neg_stamped"
    and e: "extract_ephemeral_key demo_neg_env (demo_neg_stamped, 0) = Inr 0"
    unfolding demo_neg_env_fields by (simp_all add: demo_env_def)
  note rb = selective_read_back [where ct = "''2E''" and rest = 1, OF demo_neg_group_ok w
      demo_neg_encrypt b j v h m e, unfolded demo_neg_reassembled]
  show "snd (read demo_neg_env demo_neg_written ''neg.obb'' 2 1 True)
     = Inr (demo_neg_stamped,
            demo_neg_group\<lparr>surfaces := [demo_public, demo_secret, demo_withheld]\<rparr>)"
    by (rule rb(1))
  show "snd (read_and_decrypt_selective demo_neg_env demo_neg_written ''neg.obb'' 2 1 True)
     = Inr (demo_neg_stamped,
            demo_neg_group\<lparr>surfaces := [demo_public, demo_secret, demo_withheld]\<rparr>)"
    by (rule rb(2))
qed

lemma snd_catchT:
  "snd (catchT m p h) = (case snd m of Inl e \<Rightarrow> if p e then snd h else Inl e | Inr x \<Rightarrow> Inr x)"
  by (simp add: catchT_def split: sum.splits)

lemma catchT_same: "snd (catchT m p m) = snd m"
  by (simp add: snd_catchT split: sum.splits)

lemma catchT_liftT_Inl: "p e \<Longrightarrow> catchT (bindT (liftT (Inl e)) f) p h = h"
  by (simp add: catchT_def bindT_def liftT_def)

lemma bindT_liftT_Inr: "bindT (liftT (Inr x)) f = f x"
  by (simp add: bindT_def liftT_def)

lemma snd_bindT_bindE: "snd (bindT m f) = bindE (snd m) (\<lambda>x. snd (f x))"
  by (simp add: bindT_def bindE_def split: sum.splits)

lemma bindE_Inr: "bindE (Inr x) f = f x"
  by (simp add: bindE_def)

lemma bindE_eqI: "(\<And>x. m = Inr x \<Longrightarrow> f x = g x) \<Longrightarrow> bindE m f = bindE m g"
  by (cases m) (simp_all add: bindE_def)

lemma read_full_fallback:
  assumes "read_container E fs path = Inr (h, payload)"
    and "json_loads_utf8 E payload = Inl e" and "is_json_error e"
  shows "read E fs path psk vpk v = read_and_decrypt E fs path psk vpk v"
  unfolding read_def read_and_decrypt_def
  by (simp add: assms bindT_liftT_Inr catchT_liftT_Inl)

lemma read_full_not_selective:
  assumes "read_container E fs path = Inr (h, payload)"
    and "json_loads_utf8 E payload = Inr pd" and "\<not> is_selective pd"
  shows "snd (read E fs path psk vpk v) = snd (read_and_decrypt E fs path psk vpk v)"
  unfolding read_def read_and_decrypt_def
  by (simp add: assms bindT_liftT_Inr snd_bindT_bindE catchT_same)

lemma read_selective_same:
  assumes rc: "read_container E fs path = Inr (h, payload)"
    and js: "json_loads_utf8 E payload = Inr pd" and sel: "is_selective pd"
    and nj: "\<not> json_failure (snd (read_and_decrypt_selective E fs path psk vpk v))"
  shows "snd (read E fs path psk vpk v) = snd (read_and_decrypt_selective E fs path psk vpk v)"
proof -
  have l: "snd (read E fs path psk vpk v) =
     bindE (extract_metadata E h) (\<lambda>md. bindE (extract_ephemeral_key E h) (\<lambda>eph.
     bindE (snd (check_signature E v payload (signature md) vpk)) (\<lambda>_.
     bindE (snd (catchT (decrypt_payload_selective E pd eph psk) is_json_error
               (decrypt_payload E payload eph psk))) (\<lambda>g. Inr (md, g)))))"
    unfolding read_def
    by (simp add: rc js sel bindT_liftT_Inr snd_bindT_bindE snd_liftT)
  have r: "snd (read_and_decrypt_selective E fs path psk vpk v) =
     bindE (extract_metadata E h) (\<lambda>md. bindE (extract_ephemeral_key E h) (\<lambda>eph.
     bindE (snd (check_signature E v payload (signature md) vpk)) (\<lambda>_.
     bindE (snd (decrypt_payload_selective E pd eph psk)) (\<lambda>g. Inr (md, g)))))"
    unfolding read_and_decrypt_selective_def
    by (simp add: rc js bindT_liftT_Inr snd_bindT_bindE snd_liftT bindE_Inr)
  show ?thesis
    unfolding l
  proof (subst r, intro bindE_eqI)
    fix md eph u
    assume a: "extract_metadata E h = Inr md" "extract_ephemeral_key E h = Inr eph"
      "snd (check_signature E v payload (signature md) vpk) = Inr u"
    have "\<not> json_failure (bindE (snd (decrypt_payload_selective E pd eph psk))
             (\<lambda>g. Inr (md, g)))"
      using nj unfolding r by (simp add: a bindE_Inr)
    then show "bindE (snd (catchT (decrypt_payload_selective E pd eph psk) is_json_error
               (decrypt_payload E payload eph psk))) (\<lambda>g. Inr (md, g))
          = bindE (snd (decrypt_payload_selective E pd eph psk)) (\<lambda>g. Inr (md, g))"
      by (cases "snd (decrypt_payload_selective E pd eph psk)")
         (simp_all add: snd_catchT json_failure_def bindE_def)
  qed
qed

lemma demo_container_json:
  "read_container demo_env demo_fs ''json.obb''
     = Inr ((demo_metadata\<lparr>signature := ''1E'', created_at := Some (Timestamp 0)\<rparr>, 0), ''E'')"
  by (simp add: read_container_def open_rb_def read_and_verify_magic_def
      read_length_prefixed_def read_rest_def bindE_def demo_env_def demo_fs_def
      u32le_def le32_def)

lemma demo_read_json:
  "snd (read_and_decrypt demo_env demo_fs ''json.obb'' 2 1 True) = Inl DecryptionError"
  unfolding read_and_decrypt_def demo_container_json
  by (simp add: bindT_liftT_Inr snd_bindT_bindE snd_liftT check_signature_def
      verify_payload_signature_def OBBSigner_verify_def decrypt_payload_def
      OBBEncryptor_decrypt_def demo_env_def demo_decrypt_def demo_key_byte_def bindE_def)

lemma demo_container_written:
  "read_container demo_env demo_written ''out.obb'' = Inr ((demo_stamped, 0), ''S'')"
proof -
  have "files demo_written ''out.obb''
          = Inr (File (OBB_MAGIC demo_env @ u32le (length ''1S'') @ ''1S'' @ ''S''))"
    unfolding demo_written_def demo_write_selective by (simp add: demo_env_def)
  then have "read_container demo_env demo_written ''out.obb''
          = bindE (deserialize_header demo_env ''1S'') (\<lambda>h. Inr (h, ''S''))"
    by (rule read_container_written) simp
  then show ?thesis by (simp add: demo_env_def bindE_def demo_stamped_def)
qed

lemma demo_loads_values:
  "json_loads_utf8 demo_env ''2G'' = Inl JSONDecodeError"
  "json_loads_utf8 demo_env ''E'' = Inr (encrypted_data demo_group)"
  "json_loads_utf8 demo_env ''S'' = Inr demo_payload"
  "json_loads_bytes demo_env ''E'' = Inr (encrypted_data demo_group)"
  by (simp_all add: demo_env_def demo_loads_def)

lemma demo_selective_flags:
  "\<not> is_selective (encrypted_data demo_group)" "is_selective demo_payload"
  by (simp_all add: is_selective_def encrypted_data_def demo_payload_def payload_base_def)

lemma demo_selective_read:
  "snd (read_and_decrypt_selective demo_env demo_written ''out.obb'' 2 1 True)
     = Inr (demo_stamped, demo_group\<lparr>surfaces := [demo_public, demo_secret, demo_withheld]\<rparr>)"
proof -
  have w: "OBBWriter_write_selective demo_env demo_fs ''out.obb'' demo_group demo_metadata 1 2
     (Timestamp 0) (0, []) = (demo_written, demo_stamped, None, (1, [EvEncrypt ''E'', EvSign ''S'']))"
    unfolding demo_written_def demo_write_selective by simp
  have "snd (read_and_decrypt_selective demo_env demo_written ''out.obb'' 2 1 True)
          = Inr (demo_stamped, demo_group\<lparr>surfaces := reassembled demo_group\<rparr>)"
  proof (rule selective_read_back(2) [where ct = "''2E''" and rest = 1 and h = "(demo_stamped, 0)",
        OF demo_group_ok w demo_encrypt_selective])
    show "encrypt demo_env (json_dumps demo_env (encrypted_data demo_group)) 2 (fst (0, []))
            = ((''2E'', 0), 1)
         \<and> b64encode demo_env ''2E'' \<noteq> []
         \<and> b64decode demo_env (b64encode demo_env ''2E'') = Inr ''2E''
         \<and> decrypt demo_env ''2E'' 0 2 = Inr (json_dumps demo_env (encrypted_data demo_group))
         \<and> json_loads_bytes demo_env (json_dumps demo_env (encrypted_data demo_group))
             = Inr (encrypted_data demo_group)"
      by (simp add: demo_env_def demo_dumps_values demo_key_byte_def demo_decrypt_def
          demo_loads_def)
    show "json_loads_utf8 demo_env (json_dumps demo_env demo_payload) = Inr demo_payload"
      by (simp add: demo_env_def demo_dumps_values demo_loads_def)
    show "verify demo_env (json_dumps demo_env demo_payload) (signature demo_stamped) 1 = Inr True"
      by (simp add: demo_env_def demo_dumps_values demo_stamped_def demo_key_byte_def)
    show "deserialize_header demo_env
            (serialize_header demo_env (build_header demo_env demo_stamped 0))
          = Inr (demo_stamped, 0)"
      by (simp add: demo_env_def demo_stamped_def)
    show "extract_metadata demo_env (demo_stamped, 0) = Inr demo_stamped"
      by (simp add: demo_env_def)
    show "extract_ephemeral_key demo_env (demo_stamped, 0) = Inr 0"
      by (simp add: demo_env_def)
  qed
  then show ?thesis by (simp add: demo_reassembled)
qed

lemma write_layout_full:
  assumes "OBBWriter_write E fs path g md vsk ppk now w = (fs', md', None, w')"
  shows "files fs' path = Inr (File (OBB_MAGIC E
            @ u32le (length (serialize_header E
                 (build_header E md' (snd (fst (encrypt_payload E g ppk w))))))
            @ serialize_header E (build_header E md' (snd (fst (encrypt_payload E g ppk w))))
            @ fst (fst (encrypt_payload E g ppk w))))
         \<and> length (serialize_header E
                 (build_header E md' (snd (fst (encrypt_payload E g ppk w))))) < 2 ^ 32"
  using assms
  by (auto simp: OBBWriter_write_def write_to_stream_def Let_def
      write_magic_def write_length_prefixed_def write_bytes_def
      split: option.splits if_splits)

lemma write_layout_selective:
  assumes "OBBWriter_write_selective E fs path g md vsk ppk now w = (fs', md', None, w')"
  shows "files fs' path = Inr (File (OBB_MAGIC E
            @ u32le (length (serialize_header E
                 (build_header E md' (snd (fst (encrypt_payload_selective E g ppk w))))))
            @ serialize_header E
                 (build_header E md' (snd (fst (encrypt_payload_selective E g ppk w))))
            @ json_dumps E (fst (fst (encrypt_payload_selective E g ppk w)))))
         \<and> length (serialize_header E
                 (build_header E md' (snd (fst (encrypt_payload_selective E g ppk w)))))
             < 2 ^ 32"
  using assms
  by (auto simp: OBBWriter_write_selective_def write_selective_to_stream_def Let_def
      write_magic_def write_length_prefixed_def write_bytes_def
      split: option.splits if_splits)

lemma written_layout:
  assumes "W = OBBWriter_write \<or> W = OBBWriter_write_selective"
    and "W E fs path g md vsk ppk now w = (fs', md', None, w')"
  shows "\<exists>hb p. files fs' path = Inr (File (OBB_MAGIC E @ u32le (length hb) @ hb @ p))
           \<and> length hb < 2 ^ 32"
  using assms write_layout_full [of E fs path g md vsk ppk now w fs' md' w']
    write_layout_selective [of E fs path g md vsk ppk now w fs' md' w']
  by blast

lemma payload_offset_written:
  assumes "length hb < 2 ^ 32"
  shows "payload_offset E (OBB_MAGIC E @ u32le (length hb) @ hb @ p)
           = length (OBB_MAGIC E) + 4 + length hb"
  using assms by (simp add: payload_offset_def length_u32le le32_u32le)

lemma update_payload:
  "(m @ u32le n @ hb @ p)[length m + 4 + length hb + j := b] = m @ u32le n @ hb @ p[j := b]"
  by (simp add: list_update_append length_u32le)

lemma tampered_payload:
  assumes W: "W = OBBWriter_write \<or> W = OBBWriter_write_selective"
    and wr: "W E fs path g md vsk ppk now w = (fs', md', None, w')"
    and rd: "read_container E fs' path = Inr (h, p)"
    and c: "files fs' path = Inr (File c)"
    and i: "payload_offset E c \<le> i" "i < length c" and b: "b \<noteq> c ! i"
    and t: "files ft path = Inr (File (c[i := b]))"
  shows "read_container E ft path = Inr (h, drop (payload_offset E c) (c[i := b]))"
    and "drop (payload_offset E c) (c[i := b]) \<noteq> p"
proof -
  from written_layout [OF W wr] obtain hb p0 where
    L: "files fs' path = Inr (File (OBB_MAGIC E @ u32le (length hb) @ hb @ p0))"
    and len: "length hb < 2 ^ 32" by blast
  have ceq: "c = OBB_MAGIC E @ u32le (length hb) @ hb @ p0" using c L by simp
  have "read_container E fs' path = bindE (deserialize_header E hb) (\<lambda>h. Inr (h, p0))"
    using L len by (rule read_container_written)
  with rd have hd: "deserialize_header E hb = Inr h" and pp: "p0 = p"
    by (auto simp: bindE_def split: sum.splits)
  have off: "payload_offset E c = length (OBB_MAGIC E) + 4 + length hb"
    unfolding ceq using len by (rule payload_offset_written)
  define j where "j = i - payload_offset E c"
  have ij: "i = length (OBB_MAGIC E) + 4 + length hb + j" using i(1) by (simp add: j_def off)
  have jl: "j < length p" using i(2) unfolding ij ceq pp by (simp add: length_u32le)
  have upd: "c[i := b] = OBB_MAGIC E @ u32le (length hb) @ hb @ p[j := b]"
    unfolding ij ceq pp by (rule update_payload)
  have dr: "drop (payload_offset E c) (c[i := b]) = p[j := b]"
    unfolding upd off by (simp add: length_u32le)
  have "read_container E ft path = bindE (deserialize_header E hb) (\<lambda>h. Inr (h, p[j := b]))"
    using t [unfolded upd] len by (rule read_container_written)
  then show "read_container E ft path = Inr (h, drop (payload_offset E c) (c[i := b]))"
    by (simp add: hd bindE_def dr)
  have "c ! i = p ! j" unfolding ij ceq pp by (simp add: nth_append length_u32le)
  with b have "p[j := b] ! j \<noteq> p ! j" using jl by simp
  then show "drop (payload_offset E c) (c[i := b]) \<noteq> p" unfolding dr by metis
qed

lemma demo_written_files:
  "files demo_written ''out.obb'' = Inr (File (''OBB1'' @ u32le 2 @ ''1S'' @ ''S''))"
  unfolding demo_written_def demo_write_selective by (simp add: numeral_2_eq_2)

lemma demo_payload_offset: "payload_offset demo_env (''OBB1'' @ u32le 2 @ ''1S'' @ ''S'') = 10"
  by (simp add: payload_offset_def demo_env_def u32le_def le32_def)

section \<open>Infinity sentinel\<close>

text \<open>
  C4, as the code has it. Serialization keeps the sign of an infinite radius:
  \<open>+\<infinity>\<close> becomes \<open>+1e99\<close> and \<open>-\<infinity>\<close> becomes \<open>-1e99\<close>. Deserialization maps both
  sentinels to \<open>+\<infinity>\<close>. So the round trip returns \<open>+\<infinity>\<close> for either sign: it is exact for
  \<open>+\<infinity>\<close>, and \<open>-\<infinity>\<close> comes back as \<open>+\<infinity>\<close>.
\<close>

theorem radius_sentinel_roundtrip:
  "serialize_radius PosInf = INFINITY_SENTINEL
   \<and> serialize_radius NegInf = fneg INFINITY_SENTINEL
   \<and> parse_radius pf fi (JFloat INFINITY_SENTINEL) = Inr PosInf
   \<and> parse_radius pf fi (JFloat (fneg INFINITY_SENTINEL)) = Inr PosInf
   \<and> parse_radius pf fi (JFloat (serialize_radius PosInf)) = Inr PosInf
   \<and> parse_radius pf fi (JFloat (serialize_radius NegInf)) = Inr PosInf"
  by (simp add: serialize_radius_def INFINITY_SENTINEL_def)

text \<open>
  C4 as stated fails for the negative infinity: serializing \<open>-\<infinity>\<close> and parsing the result
  does not return \<open>-\<infinity>\<close>.
\<close>

theorem radius_neg_inf_roundtrip_counterexample:
  "parse_radius (\<lambda>s. None) (\<lambda>n. None) (JFloat (serialize_radius NegInf)) \<noteq> Inr NegInf"
  by (simp add: serialize_radius_def INFINITY_SENTINEL_def)

section \<open>Zero encrypted surfaces\<close>

text \<open>
  C7. When no surface of the group has visibility \<open>ENCRYPTED\<close>,
  \<open>encrypt_payload_selective\<close> returns the public half of the key pair that
  \<open>generate_ephemeral_keypair\<close> makes from the entropy at hand, sets
  \<open>encrypted_surfaces_data\<close> to the empty string, and the only call it adds to the trace
  is that key generation: no encryption call is made.
\<close>

theorem zero_encrypted_path:
  assumes "\<forall>s \<in> set (surfaces g). visibility s \<noteq> ENCRYPTED"
  shows "snd (fst (encrypt_payload_selective E g ppk (r, t)))
           = snd (fst (generate_ephemeral_keypair E r))
       \<and> jget (fst (fst (encrypt_payload_selective E g ppk (r, t)))) ''encrypted_surfaces_data''
           = Some (JStr [])
       \<and> snd (encrypt_payload_selective E g ppk (r, t))
           = (snd (generate_ephemeral_keypair E r), t @ [EvGenKeypair])"
proof -
  have "get_encrypted_surfaces g = []"
    using assms by (simp add: get_encrypted_surfaces_def filter_empty_conv)
  then show ?thesis
    by (simp add: encrypt_payload_selective_def ecdh_generate_ephemeral_keypair_def Let_def
        jget_def payload_base_def)
qed

text \<open>The theorem at the group of a public and a redacted surface.\<close>

theorem zero_encrypted_path_witness:
  "map visibility (surfaces demo_open_group) = [PUBLIC, REDACTED]
   \<and> snd (fst (encrypt_payload_selective demo_env demo_open_group 2 (7, []))) = 7
   \<and> jget (fst (fst (encrypt_payload_selective demo_env demo_open_group 2 (7, []))))
        ''encrypted_surfaces_data'' = Some (JStr [])
   \<and> snd (encrypt_payload_selective demo_env demo_open_group 2 (7, [])) = (8, [EvGenKeypair])"
proof -
  have h: "\<forall>s \<in> set (surfaces demo_open_group). visibility s \<noteq> ENCRYPTED"
    by (simp add: demo_open_group_def demo_public_def demo_hidden_def)
  show ?thesis
    using zero_encrypted_path [OF h, of demo_env 2 7 "[]"]
    by (simp add: demo_env_def demo_open_group_def demo_public_def demo_hidden_def)
qed

section \<open>Magic bytes\<close>

text \<open>
  C8. For a file that opens and reads, whose first bytes (as many as the magic constant
  has, four) differ from the magic constant, \<open>read_metadata\<close> raises
  \<open>InvalidMagicBytesError\<close>, and so no other error.
\<close>

theorem read_metadata_magic_mismatch:
  assumes "files fs path = Inr (File c)"
    and "take (length (OBB_MAGIC E)) c \<noteq> OBB_MAGIC E"
  shows "read_metadata E fs path = Inl InvalidMagicBytesError"
  using assms
  by (simp add: read_metadata_def open_rb_def read_and_verify_magic_def bindE_def)

text \<open>The theorem at a file that starts with other bytes.\<close>

theorem read_metadata_magic_mismatch_witness:
  "files demo_fs ''bad.obb'' = Inr (File ''NOT_OBB_MAGIC'')
   \<and> take (length (OBB_MAGIC demo_env)) ''NOT_OBB_MAGIC'' \<noteq> OBB_MAGIC demo_env
   \<and> read_metadata demo_env demo_fs ''bad.obb'' = Inl InvalidMagicBytesError"
proof -
  have f: "files demo_fs ''bad.obb'' = Inr (File ''NOT_OBB_MAGIC'')"
    by (simp add: demo_fs_def)
  have m: "take (length (OBB_MAGIC demo_env)) ''NOT_OBB_MAGIC'' \<noteq> OBB_MAGIC demo_env"
    by (simp add: demo_env_def)
  show ?thesis
    using f m read_metadata_magic_mismatch [OF f m] by simp
qed

text \<open>
  C9. \<open>is_valid_obb_file\<close> never raises: it returns \<open>True\<close> exactly when the path opens on
  a readable file whose first bytes are the magic constant, and \<open>False\<close> when the open
  or the read fails. The probe leaves the read position at most at the length of the
  magic constant: it reads nothing beyond it.
\<close>

theorem is_valid_obb_file_total:
  "is_valid_obb_file E fs path =
     Inr (case files fs path of
            Inr (File c) \<Rightarrow> take (length (OBB_MAGIC E)) c = OBB_MAGIC E
          | _ \<Rightarrow> False)
   \<and> (\<forall>b c p. magic_probe E fs path = Inr (b, Handle c p) \<longrightarrow> p \<le> length (OBB_MAGIC E))"
  by (auto simp: is_valid_obb_file_def magic_probe_def open_rb_def bindE_def
      split: sum.splits file_node.splits)

text \<open>The theorem at a file with other first bytes, at an unreadable and at a missing one.\<close>

theorem is_valid_obb_file_total_witness:
  "magic_probe demo_env demo_fs ''bad.obb'' = Inr (False, Handle ''NOT_OBB_MAGIC'' 4)
   \<and> (4::nat) \<le> length (OBB_MAGIC demo_env)
   \<and> is_valid_obb_file demo_env demo_fs ''bad.obb'' = Inr False
   \<and> is_valid_obb_file demo_env demo_fs ''locked.obb'' = Inr False
   \<and> is_valid_obb_file demo_env demo_fs ''missing.obb'' = Inr False"
  using is_valid_obb_file_total [of demo_env demo_fs "''bad.obb''"]
    is_valid_obb_file_total [of demo_env demo_fs "''locked.obb''"]
    is_valid_obb_file_total [of demo_env demo_fs "''missing.obb''"]
  by (simp add: magic_probe_def open_rb_def bindE_def demo_env_def demo_fs_def)

section \<open>Default visibility\<close>

text \<open>
  C10. A \<open>Surface\<close> constructed from keyword arguments without a \<open>visibility\<close> entry has
  visibility \<open>PUBLIC\<close>. When it is a surface of a group, it is among the public surfaces
  that \<open>encrypt_payload_selective\<close> writes in clear into \<open>public_surfaces\<close>, it is not
  among the redacted surfaces whose numbers make \<open>redacted_surface_indices\<close>, and it is
  not among the encrypted surfaces, whose dump is the only plaintext ever handed to the
  encryptor.
\<close>

theorem default_visibility_public:
  assumes "map_of kwargs ''visibility'' = None"
    and "Surface_validate E (JDict kwargs) = Inr s"
    and "s \<in> set (surfaces g)"
  shows "visibility s = PUBLIC
    \<and> s \<in> set (get_public_surfaces g)
    \<and> jget (fst (fst (encrypt_payload_selective E g ppk (r, t)))) ''public_surfaces''
        = Some (JList (map Surface_dump (get_public_surfaces g)))
    \<and> s \<notin> set (get_redacted_surfaces g)
    \<and> jget (fst (fst (encrypt_payload_selective E g ppk (r, t)))) ''redacted_surface_indices''
        = Some (JList (map (\<lambda>s. JInt (surface_number s)) (get_redacted_surfaces g)))
    \<and> s \<notin> set (get_encrypted_surfaces g)
    \<and> (\<forall>pt. EvEncrypt pt \<in> set (snd (snd (encrypt_payload_selective E g ppk (r, []))))
          \<longrightarrow> pt = json_dumps E
                 (JDict [(''surfaces'', JList (map Surface_dump (get_encrypted_surfaces g)))]))"
proof -
  have v: "visibility s = PUBLIC"
    using Surface_validate_visibility [OF assms(2)] assms(1) by (simp add: field_def)
  have ev: "\<forall>pt. EvEncrypt pt \<in> set (snd (snd (encrypt_payload_selective E g ppk (r, []))))
          \<longrightarrow> pt = json_dumps E
                 (JDict [(''surfaces'', JList (map Surface_dump (get_encrypted_surfaces g)))])"
    by (simp add: encrypt_events encrypted_data_def)
  show ?thesis
    using v assms(3) ev
    by (simp add: payload_public payload_redacted get_public_surfaces_def
        get_redacted_surfaces_def get_encrypted_surfaces_def)
qed

text \<open>The theorem at \<open>Surface(surface_number=7)\<close> in a group with two other surfaces.\<close>

theorem default_visibility_public_witness:
  "map_of [(''surface_number'', JInt 7)] ''visibility'' = None
   \<and> Surface_validate demo_env (JDict [(''surface_number'', JInt 7)]) = Inr demo_plain
   \<and> demo_plain \<in> set (surfaces demo_plain_group)
   \<and> visibility demo_plain = PUBLIC
   \<and> demo_plain \<in> set (get_public_surfaces demo_plain_group)
   \<and> demo_plain \<notin> set (get_redacted_surfaces demo_plain_group)
   \<and> demo_plain \<notin> set (get_encrypted_surfaces demo_plain_group)"
proof -
  have a: "map_of [(''surface_number'', JInt 7)] ''visibility'' = None" by simp
  have b: "Surface_validate demo_env (JDict [(''surface_number'', JInt 7)]) = Inr demo_plain"
    by (simp add: Surface_validate_def field_def bindE_def v_int_ge0_def demo_plain_def)
  have c: "demo_plain \<in> set (surfaces demo_plain_group)"
    by (simp add: demo_plain_group_def)
  show ?thesis
    using a b c default_visibility_public [OF a b c, of 2 0 "[]"] by simp
qed

section \<open>Redacted placeholders\<close>

text \<open>
  C5, at the ordinal 4. The keyword arguments of the placeholder hold the marker
  \<open>comment="Surface 4 (redacted)"\<close>, but \<open>Surface\<close> declares no field \<open>comment\<close>: the
  placeholder that comes out has the ordinal, visibility \<open>REDACTED\<close> and every other
  field at its default, and is the same surface as the one built without the marker.
\<close>

theorem redacted_placeholder_drops_marker:
  "map_of (placeholder_kwargs demo_env (JInt 4)) ''comment'' = Some (JStr ''Surface 4 (redacted)'')
   \<and> redacted_placeholder demo_env (JInt 4) =
       Inr \<lparr>surface_number = 4, surface_type = STANDARD, radius = PosInf, thickness = Fin 0,
            semi_diameter = Fin 0, conic = Fin 0, material = None, aspheric_coeffs = None,
            decenter_x = Fin 0, decenter_y = Fin 0, tilt_x = Fin 0, tilt_y = Fin 0,
            visibility = REDACTED\<rparr>
   \<and> redacted_placeholder demo_env (JInt 4) =
       Surface_validate demo_env (JDict [(''surface_number'', JInt 4),
         (''surface_type'', JStr ''standard''), (''visibility'', JStr ''redacted'')])"
  by (simp add: redacted_placeholder_def placeholder_kwargs_def Surface_validate_def field_def
      bindE_def v_int_ge0_def v_surface_type_def v_visibility_def demo_env_def
      demo_key_byte_def)

section \<open>Verification before decryption\<close>

text \<open>
  C2. Let \<open>R\<close> be \<open>read\<close>, \<open>read_and_decrypt\<close> or \<open>read_and_decrypt_selective\<close>, called with
  \<open>verify_signature=True\<close>. Every decryption call of the run comes after a verification
  of the signature that returned \<open>True\<close>. When the container and its header decode and
  the verification of the payload bytes against the signature of the header returns
  \<open>False\<close>, the run is that one verification call and the exception
  \<open>InvalidSignatureError\<close>: nothing is decrypted. And when a decryption call occurs, the
  first call of the run was the verification of the payload bytes of the file, and it
  returned \<open>True\<close>.
\<close>

theorem verify_before_decrypt:
  assumes "R \<in> {read, read_and_decrypt, read_and_decrypt_selective}"
  shows "guarded E vpk False (fst (R E fs path psk vpk True))
    \<and> (\<forall>h payload md eph.
          read_container E fs path = Inr (h, payload) \<and> extract_metadata E h = Inr md
          \<and> extract_ephemeral_key E h = Inr eph
          \<and> verify E payload (signature md) vpk = Inr False
          \<longrightarrow> R E fs path psk vpk True
                = ([EvVerify payload (signature md)], Inl InvalidSignatureError))
    \<and> (\<forall>c. EvDecrypt c \<in> set (fst (R E fs path psk vpk True))
          \<longrightarrow> (\<exists>h payload md. read_container E fs path = Inr (h, payload)
                 \<and> extract_metadata E h = Inr md
                 \<and> verify E payload (signature md) vpk = Inr True
                 \<and> hd (fst (R E fs path psk vpk True)) = EvVerify payload (signature md)))"
proof -
  obtain rest where R: "R E fs path psk vpk True
      = verified_read E vpk (read_container E fs path) rest"
    using assms readers_verified [of E fs path psk vpk] by auto
  show ?thesis
    unfolding R
    using verified_read_guarded [of E vpk "read_container E fs path" rest]
      verified_read_fail_closed [of "read_container E fs path" _ _ E _ _ vpk rest]
      verified_read_decrypt [of _ E vpk "read_container E fs path" rest]
    by blast
qed

text \<open>
  The theorem at a container whose payload was altered after signing, and at the
  container it was made from.
\<close>

theorem verify_before_decrypt_witness:
  "read demo_env demo_fs ''forged.obb'' 2 1 True
     = ([EvVerify ''2H'' ''12G''], Inl InvalidSignatureError)
   \<and> verify demo_env ''2H'' ''12G'' 1 = Inr False
   \<and> guarded demo_env 1 False (fst (read demo_env demo_fs ''good.obb'' 2 1 True))
   \<and> EvDecrypt ''2G'' \<in> set (fst (read demo_env demo_fs ''good.obb'' 2 1 True))
   \<and> hd (fst (read demo_env demo_fs ''good.obb'' 2 1 True)) = EvVerify ''2G'' ''12G''
   \<and> verify demo_env ''2G'' ''12G'' 1 = Inr True"
proof -
  have r: "read \<in> {read, read_and_decrypt, read_and_decrypt_selective}" by simp
  have f: "verify demo_env ''2H'' ''12G'' 1 = Inr False"
    and g: "verify demo_env ''2G'' ''12G'' 1 = Inr True"
    by (simp_all add: demo_env_def demo_key_byte_def)
  have k: "extract_metadata demo_env
             (demo_metadata\<lparr>signature := ''12G'', created_at := Some (Timestamp 0)\<rparr>, 0)
           = Inr (demo_metadata\<lparr>signature := ''12G'', created_at := Some (Timestamp 0)\<rparr>)"
    "extract_ephemeral_key demo_env
             (demo_metadata\<lparr>signature := ''12G'', created_at := Some (Timestamp 0)\<rparr>, 0)
           = Inr 0"
    by (simp_all add: demo_env_def)
  show ?thesis
    using verify_before_decrypt [OF r, of demo_env 1 demo_fs "''forged.obb''" 2]
      verify_before_decrypt [OF r, of demo_env 1 demo_fs "''good.obb''" 2]
      demo_container_forged demo_read_good f g k
    by simp
qed

section \<open>Selective round trip\<close>

text \<open>
  C1, as the code has it. A group that meets the constraints of its field declarations
  is written by \<open>OBBWriter.write_selective\<close> without error, and the collaborators behave
  on the values of this run: the platform key decrypts the ciphertext the writer
  produced, Base64 and JSON decoding invert the encodings of the encrypted dictionary
  and of the payload dictionary, the vendor's public key accepts the signature the
  writer stamped, and the header decodes to the stamped metadata and the ephemeral key.
  Then \<open>read\<close> and \<open>read_and_decrypt_selective\<close> both return the stamped metadata and the
  group with its surfaces reassembled. The reassembled list holds exactly the original
  surfaces as read back: each redacted one replaced by its ordinal with default
  geometry, each public and each encrypted one unchanged in every field but the radius,
  which is \<open>+\<infinity>\<close> when the original was infinite or of magnitude \<open>1e99\<close> or more and
  the original otherwise. The list is sorted by \<open>surface_number\<close>, and when the original
  list was in strictly increasing ordinal order it is that list read back, element by
  element. When every radius is \<open>+\<infinity>\<close> or of magnitude below \<open>1e99\<close>, what is read back is
  what the spec says: every public and every encrypted surface comes back identical.
\<close>

theorem selective_roundtrip:
  assumes "SurfaceGroup_ok g"
    and "OBBWriter_write_selective E fs path g md vsk ppk now w = (fs', md', None, w')"
    and "encrypt_payload_selective E g ppk w = ((pd, eph), ws)"
    and "get_encrypted_surfaces g \<noteq> [] \<Longrightarrow>
         encrypt E (json_dumps E (encrypted_data g)) ppk (fst w) = ((ct, eph), rest)
         \<and> b64encode E ct \<noteq> [] \<and> b64decode E (b64encode E ct) = Inr ct
         \<and> decrypt E ct eph psk = Inr (json_dumps E (encrypted_data g))
         \<and> json_loads_bytes E (json_dumps E (encrypted_data g)) = Inr (encrypted_data g)"
    and "json_loads_utf8 E (json_dumps E pd) = Inr pd"
    and "verify E (json_dumps E pd) (signature md') vpk = Inr True"
    and "deserialize_header E (serialize_header E (build_header E md' eph)) = Inr h"
    and "extract_metadata E h = Inr md'"
    and "extract_ephemeral_key E h = Inr eph"
  shows "snd (read E fs' path psk vpk v) = Inr (md', g\<lparr>surfaces := reassembled g\<rparr>)
       \<and> snd (read_and_decrypt_selective E fs' path psk vpk v)
           = Inr (md', g\<lparr>surfaces := reassembled g\<rparr>)
       \<and> mset (reassembled g) = mset (map read_back (surfaces g))
       \<and> sorted (map surface_number (reassembled g))
       \<and> (sorted_wrt (<) (map surface_number (surfaces g))
            \<longrightarrow> reassembled g = map read_back (surfaces g))
       \<and> (list_all (\<lambda>s. radius s = PosInf \<or> \<not> fge (fabs (radius s)) INFINITY_SENTINEL)
              (surfaces g)
            \<longrightarrow> map read_back (surfaces g) = map spec_view (surfaces g))"
proof -
  have "list_all (\<lambda>s. radius s = PosInf \<or> \<not> fge (fabs (radius s)) INFINITY_SENTINEL)
              (surfaces g)
            \<longrightarrow> map read_back (surfaces g) = map spec_view (surfaces g)"
    by (simp add: list_all_iff read_back_exact)
  then show ?thesis
    using selective_read_back [OF assms] mset_reassembled [of g] sorted_reassembled [of g]
      reassembled_in_order [of g]
    by blast
qed

theorem selective_roundtrip_witness:
  "snd (read demo_env demo_written ''out.obb'' 2 1 True)
     = Inr (demo_stamped, demo_group\<lparr>surfaces := [demo_public, demo_secret, demo_withheld]\<rparr>)
   \<and> snd (read_and_decrypt_selective demo_env demo_written ''out.obb'' 2 1 True)
     = Inr (demo_stamped, demo_group\<lparr>surfaces := [demo_public, demo_secret, demo_withheld]\<rparr>)
   \<and> map read_back (surfaces demo_group) = [demo_public, demo_secret, demo_withheld]
   \<and> map spec_view (surfaces demo_group) = [demo_public, demo_secret, demo_withheld]
   \<and> map visibility (surfaces demo_group) = [PUBLIC, ENCRYPTED, REDACTED]"
proof -
  have w: "OBBWriter_write_selective demo_env demo_fs ''out.obb'' demo_group demo_metadata 1 2
     (Timestamp 0) (0, []) = (demo_written, demo_stamped, None, (1, [EvEncrypt ''E'', EvSign ''S'']))"
    unfolding demo_written_def demo_write_selective by simp
  have o: "sorted_wrt (<) (map surface_number (surfaces demo_group))"
    by (simp add: demo_group_def demo_public_def demo_secret_def demo_hidden_def)
  have v: "map visibility (surfaces demo_group) = [PUBLIC, ENCRYPTED, REDACTED]"
    by (simp add: demo_group_def demo_public_def demo_secret_def demo_hidden_def)
  have "snd (read demo_env demo_written ''out.obb'' 2 1 True)
          = Inr (demo_stamped, demo_group\<lparr>surfaces := reassembled demo_group\<rparr>)
       \<and> snd (read_and_decrypt_selective demo_env demo_written ''out.obb'' 2 1 True)
           = Inr (demo_stamped, demo_group\<lparr>surfaces := reassembled demo_group\<rparr>)
       \<and> mset (reassembled demo_group) = mset (map read_back (surfaces demo_group))
       \<and> sorted (map surface_number (reassembled demo_group))
       \<and> (sorted_wrt (<) (map surface_number (surfaces demo_group))
            \<longrightarrow> reassembled demo_group = map read_back (surfaces demo_group))
       \<and> (list_all (\<lambda>s. radius s = PosInf \<or> \<not> fge (fabs (radius s)) INFINITY_SENTINEL)
              (surfaces demo_group)
            \<longrightarrow> map read_back (surfaces demo_group) = map spec_view (surfaces demo_group))"
  proof (rule selective_roundtrip [where ct = "''2E''" and rest = 1 and h = "(demo_stamped, 0)",
        OF demo_group_ok w demo_encrypt_selective])
    show "encrypt demo_env (json_dumps demo_env (encrypted_data demo_group)) 2 (fst (0, []))
            = ((''2E'', 0), 1)
         \<and> b64encode demo_env ''2E'' \<noteq> []
         \<and> b64decode demo_env (b64encode demo_env ''2E'') = Inr ''2E''
         \<and> decrypt demo_env ''2E'' 0 2 = Inr (json_dumps demo_env (encrypted_data demo_group))
         \<and> json_loads_bytes demo_env (json_dumps demo_env (encrypted_data demo_group))
             = Inr (encrypted_data demo_group)"
      by (simp add: demo_env_def demo_dumps_values demo_key_byte_def demo_decrypt_def
          demo_loads_def)
    show "json_loads_utf8 demo_env (json_dumps demo_env demo_payload) = Inr demo_payload"
      by (simp add: demo_env_def demo_dumps_values demo_loads_def)
    show "verify demo_env (json_dumps demo_env demo_payload) (signature demo_stamped) 1 = Inr True"
      by (simp add: demo_env_def demo_dumps_values demo_stamped_def demo_key_byte_def)
    show "deserialize_header demo_env
            (serialize_header demo_env (build_header demo_env demo_stamped 0))
          = Inr (demo_stamped, 0)"
      by (simp add: demo_env_def demo_stamped_def)
    show "extract_metadata demo_env (demo_stamped, 0) = Inr demo_stamped"
      by (simp add: demo_env_def)
    show "extract_ephemeral_key demo_env (demo_stamped, 0) = Inr 0"
      by (simp add: demo_env_def)
  qed
  with o v show ?thesis by (simp add: demo_reassembled demo_views)
qed

text \<open>
  C1 as stated fails for a public surface whose radius is \<open>-\<infinity>\<close>. The surface is the one
  that \<open>Surface(surface_number=0, radius='-inf', thickness=5.0, semi_diameter=12.0,
  material='N-BK7')\<close> builds; it stands first in a group with an encrypted and a redacted
  surface. The group is written without error, and both readers return it with that
  surface changed: its radius is \<open>+\<infinity>\<close>.
\<close>

theorem selective_roundtrip_counterexample:
  "Surface_validate demo_neg_env demo_neg_kwargs = Inr demo_neg
   \<and> SurfaceGroup_ok demo_neg_group
   \<and> surfaces demo_neg_group = [demo_neg, demo_secret, demo_hidden]
   \<and> map visibility (surfaces demo_neg_group) = [PUBLIC, ENCRYPTED, REDACTED]
   \<and> fst (snd (snd (OBBWriter_write_selective demo_neg_env demo_fs ''neg.obb''
          demo_neg_group demo_metadata 1 2 (Timestamp 0) (0, [])))) = None
   \<and> snd (read demo_neg_env demo_neg_written ''neg.obb'' 2 1 True)
     = Inr (demo_neg_stamped,
            demo_neg_group\<lparr>surfaces := [demo_public, demo_secret, demo_withheld]\<rparr>)
   \<and> snd (read_and_decrypt_selective demo_neg_env demo_neg_written ''neg.obb'' 2 1 True)
     = Inr (demo_neg_stamped,
            demo_neg_group\<lparr>surfaces := [demo_public, demo_secret, demo_withheld]\<rparr>)
   \<and> radius demo_neg = NegInf \<and> radius demo_public = PosInf \<and> demo_public \<noteq> demo_neg"
proof -
  have "fst (snd (snd (OBBWriter_write_selective demo_neg_env demo_fs ''neg.obb''
          demo_neg_group demo_metadata 1 2 (Timestamp 0) (0, [])))) = None"
    unfolding demo_neg_write by simp
  moreover have "map visibility (surfaces demo_neg_group) = [PUBLIC, ENCRYPTED, REDACTED]"
    and "surfaces demo_neg_group = [demo_neg, demo_secret, demo_hidden]"
    and "radius demo_neg = NegInf" and "radius demo_public = PosInf"
    and "demo_public \<noteq> demo_neg"
    by (simp_all add: demo_neg_group_def demo_neg_def demo_public_def demo_secret_def
        demo_hidden_def)
  ultimately show ?thesis
    using demo_neg_validated demo_neg_group_ok demo_neg_read by simp
qed

section \<open>Format auto-detection\<close>

text \<open>
  C6. \<open>read\<close> on a container that can be opened: the magic matches and the header
  decodes. When the payload is not JSON text (decoding it raises \<open>JSONDecodeError\<close> or
  \<open>UnicodeDecodeError\<close>), \<open>read\<close> does what \<open>read_and_decrypt\<close> does, call for call, and
  returns what it returns: the payload is taken for a full-encryption ciphertext, not
  reported as an error. When the payload is JSON that is not a dictionary marked
  \<open>"encryption_mode": "selective"\<close>, \<open>read\<close> again returns the result of
  \<open>read_and_decrypt\<close>. When the payload is a dictionary so marked, \<open>read\<close> returns the
  result of \<open>read_and_decrypt_selective\<close>, provided that result is not itself a JSON or
  Unicode decoding error, as it is not for a container that decrypts.
\<close>

theorem read_auto_detect:
  assumes "read_container E fs path = Inr (h, payload)"
  shows "(\<forall>e. json_loads_utf8 E payload = Inl e \<and> is_json_error e
            \<longrightarrow> read E fs path psk vpk v = read_and_decrypt E fs path psk vpk v)
       \<and> (\<forall>pd. json_loads_utf8 E payload = Inr pd \<and> \<not> is_selective pd
            \<longrightarrow> snd (read E fs path psk vpk v) = snd (read_and_decrypt E fs path psk vpk v))
       \<and> (\<forall>pd. json_loads_utf8 E payload = Inr pd \<and> is_selective pd
              \<and> \<not> json_failure (snd (read_and_decrypt_selective E fs path psk vpk v))
            \<longrightarrow> snd (read E fs path psk vpk v)
                = snd (read_and_decrypt_selective E fs path psk vpk v))"
  using read_full_fallback [OF assms] read_full_not_selective [OF assms]
    read_selective_same [OF assms]
  by blast

theorem read_auto_detect_witness:
  "read demo_env demo_fs ''good.obb'' 2 1 True
     = read_and_decrypt demo_env demo_fs ''good.obb'' 2 1 True
   \<and> snd (read demo_env demo_fs ''good.obb'' 2 1 True)
     = Inr (demo_metadata\<lparr>signature := ''12G'', created_at := Some (Timestamp 0)\<rparr>, demo_group)
   \<and> snd (read demo_env demo_fs ''json.obb'' 2 1 True) = Inl DecryptionError
   \<and> snd (read demo_env demo_written ''out.obb'' 2 1 True)
     = Inr (demo_stamped, demo_group\<lparr>surfaces := [demo_public, demo_secret, demo_withheld]\<rparr>)"
  using read_auto_detect [OF demo_container_good, of 2 1 True]
    read_auto_detect [OF demo_container_json, of 2 1 True]
    read_auto_detect [OF demo_container_written, of 2 1 True]
  by (simp add: demo_loads_values demo_selective_flags demo_read_good demo_read_json
      demo_selective_read is_json_error_def json_failure_def del: One_nat_def)
     (metis snd_conv)

section \<open>Tamper detection\<close>

text \<open>
  C3. A container is written by \<open>OBBWriter.write\<close> or \<open>OBBWriter.write_selective\<close> without
  error, and it can be read back: the header decodes to the stamped metadata. One byte of
  its payload section is replaced by a different byte. The Signing Engine is taken by its
  contract in the spec: \<open>verify\<close> returns false, and does not raise, for the stamped
  signature and any data other than the payload that was signed. Then each of \<open>read\<close>,
  \<open>read_and_decrypt\<close> and \<open>read_and_decrypt_selective\<close>, called with
  \<open>verify_signature=True\<close> on the altered file, raises \<open>InvalidSignatureError\<close>, having made
  one call, the verification of the altered payload, and no decryption.
\<close>

theorem tamper_detected:
  assumes "W = OBBWriter_write \<or> W = OBBWriter_write_selective"
    and "W E fs path g md vsk ppk now w = (fs', md', None, w')"
    and "read_container E fs' path = Inr (h, p)"
    and "extract_metadata E h = Inr md'"
    and "extract_ephemeral_key E h = Inr eph"
    and "files fs' path = Inr (File c)"
    and "payload_offset E c \<le> i" and "i < length c" and "b \<noteq> c ! i"
    and "files ft path = Inr (File (c[i := b]))"
    and "\<forall>d. d \<noteq> p \<longrightarrow> verify E d (signature md') vpk = Inr False"
    and "R = read \<or> R = read_and_decrypt \<or> R = read_and_decrypt_selective"
  shows "R E ft path psk vpk True =
           ([EvVerify (drop (payload_offset E c) (c[i := b])) (signature md')],
            Inl InvalidSignatureError)"
proof -
  let ?p = "drop (payload_offset E c) (c[i := b])"
  have rc: "read_container E ft path = Inr (h, ?p)" and ne: "?p \<noteq> p"
    using tampered_payload [OF assms(1,2,3) assms(6,7,8,9,10)] by simp_all
  from ne assms(11) have no: "verify E ?p (signature md') vpk = Inr False" by simp
  have "verified_read E vpk (read_container E ft path) rest
          = ([EvVerify ?p (signature md')], Inl InvalidSignatureError)" for rest
    :: "'d \<times> string \<Rightarrow> OBBMetadata \<Rightarrow> 'b \<Rightarrow> (OBBMetadata \<times> SurfaceGroup) traced"
    using rc assms(4,5) no by (rule verified_read_fail_closed)
  with assms(12) show ?thesis
    by (auto simp: readers_verified)
qed

theorem tamper_detected_witness:
  "read demo_env demo_tampered ''out.obb'' 2 1 True
     = ([EvVerify ''T'' ''1S''], Inl InvalidSignatureError)"
proof -
  have w: "OBBWriter_write_selective demo_env demo_fs ''out.obb'' demo_group demo_metadata 1 2
     (Timestamp 0) (0, []) = (demo_written, demo_stamped, None, (1, [EvEncrypt ''E'', EvSign ''S'']))"
    unfolding demo_written_def demo_write_selective by simp
  have t: "files demo_tampered ''out.obb''
             = Inr (File ((''OBB1'' @ u32le 2 @ ''1S'' @ ''S'')[10 := CHR ''T'']))"
    by (simp add: demo_tampered_def)
  have "read demo_env demo_tampered ''out.obb'' 2 1 True =
          ([EvVerify (drop (payload_offset demo_env (''OBB1'' @ u32le 2 @ ''1S'' @ ''S''))
                        ((''OBB1'' @ u32le 2 @ ''1S'' @ ''S'')[10 := CHR ''T'']))
              (signature demo_stamped)],
           Inl InvalidSignatureError)"
  proof (rule tamper_detected [where W = OBBWriter_write_selective and R = read
        and p = "''S''" and eph = 0 and h = "(demo_stamped, 0)",
        OF _ w demo_container_written _ _ demo_written_files _ _ _ t])
    show "\<forall>d. d \<noteq> ''S'' \<longrightarrow> verify demo_env d (signature demo_stamped) 1 = Inr False"
      by (simp add: demo_env_def demo_stamped_def demo_key_byte_def)
    show "payload_offset demo_env (''OBB1'' @ u32le 2 @ ''1S'' @ ''S'') \<le> 10"
      unfolding demo_payload_offset by simp
    show "10 < length (''OBB1'' @ u32le 2 @ ''1S'' @ ''S'')"
      by (simp add: u32le_def)
    show "CHR ''T'' \<noteq> (''OBB1'' @ u32le 2 @ ''1S'' @ ''S'') ! 10"
      by (simp add: u32le_def)
    show "extract_metadata demo_env (demo_stamped, 0) = Inr demo_stamped"
      by (simp add: demo_env_def)
    show "extract_ephemeral_key demo_env (demo_stamped, 0) = Inr 0"
      by (simp add: demo_env_def)
  qed simp_all
  then show ?thesis
    unfolding demo_payload_offset by (simp add: demo_stamped_def u32le_def)
qed

end
